theory Spec2Isabelle
  imports Complex_Main "HOL-Library.Word"
begin

unbundle bit_operations_syntax

section \<open>JavaScript values\<close>

text \<open>
  A JavaScript string is a sequence of 16-bit code units. Property names, storage keys,
  voice ids and error messages are ASCII in this program and are kept as HOL strings;
  \<open>js\<close> turns such a literal into code units.
\<close>

type_synonym jstext = "16 word list"

definition js :: "string \<Rightarrow> jstext" where
  "js s = map (\<lambda>c. of_nat (of_char c)) s"

text \<open>
  A JavaScript Number is an IEEE-754 double. The model keeps the finite ones as exact
  rationals (every double is one) beside the two infinities and NaN; negative zero is not
  told from zero, which no comparison of this program can do either.
\<close>

datatype number = Fin rat | PInf | NInf | NaN

datatype error =
    Error string
  | TypeError string
  | RangeError string
  | SyntaxError string
  | DOMException string

datatype jsv =
    JUndefined
  | JNull
  | JBool bool
  | JNum number
  | JStr jstext
  | JArr "jsv list"
  | JObj "(string \<times> jsv) list"
  | JFun string

text \<open>ToBoolean, as \<open>if (v)\<close>, \<open>v && ...\<close> and \<open>v || ...\<close> apply it.\<close>

fun truthy :: "jsv \<Rightarrow> bool" where
  "truthy JUndefined = False"
| "truthy JNull = False"
| "truthy (JBool b) = b"
| "truthy (JNum n) = (n \<noteq> NaN \<and> n \<noteq> Fin 0)"
| "truthy (JStr s) = (s \<noteq> [])"
| "truthy (JArr xs) = True"
| "truthy (JObj kvs) = True"
| "truthy (JFun f) = True"

section \<open>utils.js: local storage\<close>

definition HISTORY_STORAGE_KEY :: string where
  "HISTORY_STORAGE_KEY = ''voiceforge-history''"

text \<open>
  What the browser supplies: \<open>JSON.stringify\<close> (it throws on a cyclic value and gives
  \<open>undefined\<close>, here \<open>None\<close>, for a value JSON has no text for), \<open>JSON.parse\<close> (it
  throws a SyntaxError), whether \<open>localStorage\<close> can be read at all, and whether
  \<open>setItem\<close> takes a write (it throws when the quota is exceeded or storage is blocked).
\<close>

record platform =
  json_stringify :: "jsv \<Rightarrow> error + jstext option"
  json_parse :: "jstext \<Rightarrow> error + jsv"
  storage_readable :: bool
  storage_accepts :: "(string \<rightharpoonup> jstext) \<Rightarrow> string \<Rightarrow> jstext \<Rightarrow> bool"

type_synonym local_storage = "string \<rightharpoonup> jstext"


definition setItem :: "platform \<Rightarrow> local_storage \<Rightarrow> string \<Rightarrow> jstext \<Rightarrow> error + local_storage" where
  "setItem P st key v =
     (if storage_accepts P st key v then Inr (st(key \<mapsto> v))
      else Inl (DOMException ''QuotaExceededError''))"


text \<open>
  \<open>saveToStorage(key, value)\<close>: true and the item written, or false and the storage as it
  was when \<open>JSON.stringify\<close> or \<open>setItem\<close> throws. \<open>setItem\<close> turns its argument into a
  string, so an \<open>undefined\<close> from \<open>JSON.stringify\<close> is stored as the text "undefined".
\<close>

definition saveToStorage :: "platform \<Rightarrow> local_storage \<Rightarrow> string \<Rightarrow> jsv \<Rightarrow> bool \<times> local_storage" where
  "saveToStorage P st key v =
     (case json_stringify P v of
        Inl e \<Rightarrow> (False, st)
      | Inr s \<Rightarrow>
          (case setItem P st key (case s of None \<Rightarrow> js ''undefined'' | Some t \<Rightarrow> t) of
             Inl e \<Rightarrow> (False, st)
           | Inr st' \<Rightarrow> (True, st')))"

section \<open>ui-controller.js: the generation history\<close>

text \<open>
  A history item as \<open>addToHistory\<close> builds it, and the JavaScript object it is (the
  properties in the order of the object literal).
\<close>

record history_item =
  item_id :: jstext
  item_text :: jstext
  item_voiceName :: jstext
  item_duration :: number
  item_timestamp :: jstext

definition js_of_item :: "history_item \<Rightarrow> jsv" where
  "js_of_item i =
     JObj [(''id'', JStr (item_id i)), (''text'', JStr (item_text i)),
           (''voiceName'', JStr (item_voiceName i)), (''duration'', JNum (item_duration i)),
           (''timestamp'', JStr (item_timestamp i))]"

definition js_of_history :: "history_item list \<Rightarrow> jsv" where
  "js_of_history h = JArr (map js_of_item h)"



text \<open>The part of the controller the history touches: the list and whether its section is hidden.\<close>

record ui_state =
  history :: "history_item list"
  historySectionHidden :: bool

text \<open>An entry of the \<open>VOICES\<close> table of utils.js, as far as the history reads it.\<close>

record voice_preset =
  preset_id :: string
  preset_name :: jstext

text \<open>The decimal digits of a number: the template literal around \<open>Date.now()\<close>.\<close>

fun decimal :: "nat \<Rightarrow> jstext" where
  "decimal n =
     (if n < 10 then [of_nat (48 + n)] else decimal (n div 10) @ [of_nat (48 + n mod 10)])"

declare decimal.simps [simp del]

definition renderHistory :: "ui_state \<Rightarrow> ui_state" where
  "renderHistory ui = (if length (history ui) = 0 then ui\<lparr>historySectionHidden := True\<rparr> else ui)"

text \<open>
  \<open>addToHistory(text, voiceId, duration)\<close>. \<open>now\<close> is what \<open>Date.now()\<close> returns and
  \<open>timeString\<close> what \<open>new Date().toLocaleTimeString()\<close> returns at the call.
\<close>

definition new_item ::
  "voice_preset list \<Rightarrow> nat \<Rightarrow> jstext \<Rightarrow> jstext \<Rightarrow> string \<Rightarrow> number \<Rightarrow> history_item" where
  "new_item VOICES now timeString tx voiceId duration =
     \<lparr>item_id = decimal now,
      item_text = take 100 tx,
      item_voiceName =
        (case find (\<lambda>v. preset_id v = voiceId) VOICES of
           None \<Rightarrow> js ''Unknown''
         | Some v \<Rightarrow> (if preset_name v \<noteq> [] then preset_name v else js ''Unknown'')),
      item_duration = duration,
      item_timestamp = timeString\<rparr>"

definition addToHistory ::
  "platform \<Rightarrow> voice_preset list \<Rightarrow> nat \<Rightarrow> jstext \<Rightarrow> jstext \<Rightarrow> string \<Rightarrow> number \<Rightarrow>
   ui_state \<times> local_storage \<Rightarrow> ui_state \<times> local_storage" where
  "addToHistory P VOICES now timeString tx voiceId duration s =
     (let ui = fst s; st = snd s;
          item = new_item VOICES now timeString tx voiceId duration;
          h1 = item # history ui;
          h2 = (if length h1 > 10 then butlast h1 else h1);
          ui2 = ui\<lparr>history := h2\<rparr>;
          ui3 = (if length h2 > 0 then renderHistory (ui2\<lparr>historySectionHidden := False\<rparr>) else ui2)
      in (ui3, snd (saveToStorage P st HISTORY_STORAGE_KEY (js_of_history h2))))"

text \<open>
  The click handler of an item's delete button; \<open>ident\<close> is the \<open>id\<close> of the item the
  button was rendered for.
\<close>

definition deleteHistoryItem ::
  "platform \<Rightarrow> jstext \<Rightarrow> ui_state \<times> local_storage \<Rightarrow> ui_state \<times> local_storage" where
  "deleteHistoryItem P ident s =
     (let ui = fst s; st = snd s;
          h = filter (\<lambda>x. item_id x \<noteq> ident) (history ui);
          ui2 = renderHistory (ui\<lparr>history := h\<rparr>)
      in (ui2, snd (saveToStorage P st HISTORY_STORAGE_KEY (js_of_history h))))"


datatype history_op =
    Add nat jstext jstext string number
  | Delete jstext

fun apply_history_op ::
  "platform \<Rightarrow> voice_preset list \<Rightarrow> history_op \<Rightarrow> ui_state \<times> local_storage \<Rightarrow> ui_state \<times> local_storage" where
  "apply_history_op P VOICES (Add now timeString tx voiceId duration) s =
     addToHistory P VOICES now timeString tx voiceId duration s"
| "apply_history_op P VOICES (Delete ident) s = deleteHistoryItem P ident s"

fun run_history_ops ::
  "platform \<Rightarrow> voice_preset list \<Rightarrow> history_op list \<Rightarrow> ui_state \<times> local_storage \<Rightarrow> ui_state \<times> local_storage" where
  "run_history_ops P VOICES [] s = s"
| "run_history_ops P VOICES (x # xs) s = run_history_ops P VOICES xs (apply_history_op P VOICES x s)"



subsection \<open>A concrete history\<close>

definition demo_voices :: "voice_preset list" where
  "demo_voices =
     [\<lparr>preset_id = ''en_US-lessac-high'', preset_name = js ''Lessac''\<rparr>,
      \<lparr>preset_id = ''en_US-john-medium'', preset_name = js ''John''\<rparr>]"

definition demo_item :: "nat \<Rightarrow> history_item" where
  "demo_item n = new_item demo_voices n (js ''10:15:00'') (js ''Hello'') ''en_US-john-medium'' (Fin 2)"

definition demo_full_history :: "history_item list" where
  "demo_full_history =
     [demo_item 10, demo_item 9, demo_item 8, demo_item 7, demo_item 6,
      demo_item 5, demo_item 4, demo_item 3, demo_item 2, demo_item 1]"

text \<open>A platform whose JSON functions know the texts of the listed values only.\<close>

definition demo_platform :: "(jsv \<times> jstext) list \<Rightarrow> platform" where
  "demo_platform known =
     \<lparr>json_stringify = (\<lambda>v. case map_of known v of
                               Some t \<Rightarrow> Inr (Some t)
                             | None \<Rightarrow> Inl (TypeError ''cyclic object value'')),
      json_parse = (\<lambda>t. case map_of (map (\<lambda>(v, t). (t, v)) known) t of
                           Some v \<Rightarrow> Inr v
                         | None \<Rightarrow> Inl (SyntaxError ''Unexpected token'')),
      storage_readable = True,
      storage_accepts = (\<lambda>st k v. True)\<rparr>"

definition demo_ops :: "history_op list" where
  "demo_ops =
     [Add 11 (js ''10:16:00'') (js ''One more'') ''en_US-lessac-high'' (Fin 3),
      Delete (decimal 5),
      Add 12 (js ''10:17:00'') (js ''And another'') ''nobody'' (Fin 1)]"

definition demo_state :: "ui_state \<times> local_storage" where
  "demo_state = (\<lparr>history = demo_full_history, historySectionHidden = False\<rparr>, Map.empty)"




section \<open>sw.js: the service worker's fetch handler\<close>

datatype response_type = Basic | Cors | Default | ErrorResponse | Opaque | OpaqueRedirect

record response =
  status :: nat
  response_type :: response_type
  body :: jstext

record request =
  request_method :: string
  request_url :: string

text \<open>
  \<open>CacheStorage\<close>: the named caches in the order of their creation, each a map from a
  request's URL to the response stored for it. URLs are taken as resolved against the
  worker's origin, so \<open>/index.html\<close> stands for the URL it resolves to.
\<close>

type_synonym cache = "string \<rightharpoonup> response"
type_synonym cache_storage = "(string \<times> cache) list"

definition CACHE_NAME :: string where
  "CACHE_NAME = ''voiceforge-v1''"

text \<open>\<open>caches.match\<close>: the first cache, in creation order, that holds the URL.\<close>

fun caches_match :: "cache_storage \<Rightarrow> string \<Rightarrow> response option" where
  "caches_match [] u = None"
| "caches_match ((name, c) # rest) u =
     (case c u of Some r \<Rightarrow> Some r | None \<Rightarrow> caches_match rest u)"

text \<open>\<open>caches.open(name)\<close> then \<open>cache.put\<close>: the cache is created when it does not exist.\<close>

fun caches_put :: "cache_storage \<Rightarrow> string \<Rightarrow> string \<Rightarrow> response \<Rightarrow> cache_storage" where
  "caches_put [] name u r = [(name, [u \<mapsto> r])]"
| "caches_put ((n, c) # rest) name u r =
     (if n = name then (n, c(u \<mapsto> r)) # rest else (n, c) # caches_put rest name u r)"

text \<open>
  The network as the handler sees it: \<open>fetch\<close> resolves with a response or rejects. And
  \<open>cache.put\<close> itself can reject (a request scheme it does not support, a \<open>Vary: *\<close>
  response); the handler does not wait for it, so the response is returned all the same.
\<close>

record sw_env =
  network :: "request \<Rightarrow> error + response"
  put_accepts :: "request \<Rightarrow> response \<Rightarrow> bool"

datatype fetch_outcome = NotIntercepted | RespondWith "response option"

record sw_result =
  outcome :: fetch_outcome
  caches_after :: cache_storage
  network_requests :: "request list"

definition sw_fetch :: "sw_env \<Rightarrow> request \<Rightarrow> cache_storage \<Rightarrow> sw_result" where
  "sw_fetch env req caches =
     (if request_method req \<noteq> ''GET'' then
        \<lparr>outcome = NotIntercepted, caches_after = caches, network_requests = []\<rparr>
      else
        (case caches_match caches (request_url req) of
           Some r \<Rightarrow> \<lparr>outcome = RespondWith (Some r), caches_after = caches, network_requests = []\<rparr>
         | None \<Rightarrow>
             (case network env req of
                Inr r \<Rightarrow>
                  (if status r \<noteq> 200 \<or> response_type r = ErrorResponse then
                     \<lparr>outcome = RespondWith (Some r), caches_after = caches,
                      network_requests = [req]\<rparr>
                   else
                     \<lparr>outcome = RespondWith (Some r),
                      caches_after =
                        (if put_accepts env req r
                         then caches_put caches CACHE_NAME (request_url req) r else caches),
                      network_requests = [req]\<rparr>)
              | Inl e \<Rightarrow>
                  \<lparr>outcome = RespondWith (caches_match caches ''/index.html''),
                   caches_after = caches, network_requests = [req]\<rparr>)))"

subsection \<open>A concrete worker\<close>

definition demo_index :: response where
  "demo_index = \<lparr>status = 200, response_type = Basic, body = js ''<html>''\<rparr>"

definition demo_css :: response where
  "demo_css = \<lparr>status = 200, response_type = Basic, body = js ''body{}''\<rparr>"

definition demo_missing :: response where
  "demo_missing = \<lparr>status = 404, response_type = Basic, body = js ''Not Found''\<rparr>"

definition demo_caches :: cache_storage where
  "demo_caches = [(''voiceforge-v1'', [''/index.html'' \<mapsto> demo_index])]"

definition demo_network :: sw_env where
  "demo_network =
     \<lparr>network = (\<lambda>r. if request_url r = ''/styles/main.css'' then Inr demo_css
                      else if request_url r = ''/nothing'' then Inr demo_missing
                      else Inl (TypeError ''Failed to fetch'')),
      put_accepts = (\<lambda>r p. True)\<rparr>"

definition GET :: "string \<Rightarrow> request" where
  "GET u = \<lparr>request_method = ''GET'', request_url = u\<rparr>"

section \<open>i18n.js: translation lookup\<close>

text \<open>
  Property access on a JavaScript value follows the prototype chain: the \<open>in\<close> operator
  and \<open>value[part]\<close> find the properties an object inherits as well as its own. What the
  built-in prototypes hold is the browser's: \<open>object_proto\<close> gives the properties every
  plain object inherits from \<open>Object.prototype\<close>, \<open>array_proto\<close> those an array inherits
  (from \<open>Array.prototype\<close> and, behind it, \<open>Object.prototype\<close>).
\<close>

record prototypes =
  object_proto :: "string \<rightharpoonup> jsv"
  array_proto :: "string \<rightharpoonup> jsv"

text \<open>The name of an array index: its decimal digits, without leading zeros.\<close>

fun index_name :: "nat \<Rightarrow> string" where
  "index_name n =
     (if n < 10 then [char_of (48 + n)] else index_name (n div 10) @ [char_of (48 + n mod 10)])"

declare index_name.simps [simp del]

text \<open>\<open>typeof value === "object"\<close>: objects, arrays and \<open>null\<close>.\<close>

fun typeof_object :: "jsv \<Rightarrow> bool" where
  "typeof_object JNull = True"
| "typeof_object (JArr xs) = True"
| "typeof_object (JObj kvs) = True"
| "typeof_object v = False"

text \<open>The own properties of an object or array, by name.\<close>

fun own_property :: "jsv \<Rightarrow> string \<Rightarrow> jsv option" where
  "own_property (JObj kvs) p = map_of kvs p"
| "own_property (JArr xs) p =
     (if p = ''length'' then Some (JNum (Fin (of_nat (length xs))))
      else map_of (zip (map index_name [0..<length xs]) xs) p)"
| "own_property v p = None"

fun inherited_property :: "prototypes \<Rightarrow> jsv \<Rightarrow> string \<Rightarrow> jsv option" where
  "inherited_property E (JObj kvs) p = object_proto E p"
| "inherited_property E (JArr xs) p = array_proto E p"
| "inherited_property E v p = None"

text \<open>\<open>part in value\<close> and \<open>value[part]\<close>, for a value that is an object or an array.\<close>

definition has_property :: "prototypes \<Rightarrow> jsv \<Rightarrow> string \<Rightarrow> bool" where
  "has_property E v p \<longleftrightarrow> own_property v p \<noteq> None \<or> inherited_property E v p \<noteq> None"

definition get_property :: "prototypes \<Rightarrow> jsv \<Rightarrow> string \<Rightarrow> jsv" where
  "get_property E v p =
     (case own_property v p of
        Some w \<Rightarrow> w
      | None \<Rightarrow> (case inherited_property E v p of Some w \<Rightarrow> w | None \<Rightarrow> JUndefined))"

text \<open>\<open>key.split(".")\<close>: the segments between the dots; one more segment than dots.\<close>

fun split_dot :: "string \<Rightarrow> string list" where
  "split_dot [] = [[]]"
| "split_dot (c # cs) =
     (if c = CHR ''.'' then [] # split_dot cs
      else (case split_dot cs of [] \<Rightarrow> [[c]] | p # ps \<Rightarrow> (c # p) # ps))"

record i18n =
  currentLanguage :: string
  translations_obj :: "(string \<times> jsv) list"

text \<open>
  The loop of \<open>t\<close> over the segments: \<open>None\<close> is the early \<open>return defaultValue\<close>,
  \<open>Some v\<close> the value the loop ends with.
\<close>

fun walk :: "prototypes \<Rightarrow> string list \<Rightarrow> jsv \<Rightarrow> jsv option" where
  "walk E [] v = Some v"
| "walk E (part # parts) v =
     (if truthy v \<and> typeof_object v \<and> has_property E v part
      then walk E parts (get_property E v part)
      else None)"

text \<open>
  The parameter \<open>defaultValue = key\<close>: an argument that is missing or \<open>undefined\<close> is
  replaced by the key.
\<close>

definition default_parameter :: "string \<Rightarrow> jsv \<Rightarrow> jsv" where
  "default_parameter key argument = (if argument = JUndefined then JStr (js key) else argument)"

text \<open>
  \<open>t(key, defaultValue)\<close>. The translations of the current language are read off the
  \<open>translations\<close> object, itself a plain object. \<open>i18n_t\<close> is \<open>I18n.t\<close> and \<open>i18n_t1\<close> the
  call with the key alone, whose default value is the key.
\<close>

definition i18n_t :: "prototypes \<Rightarrow> i18n \<Rightarrow> string \<Rightarrow> jsv \<Rightarrow> jsv" where
  "i18n_t E st key argument =
     (let defaultValue = default_parameter key argument in
      case walk E (split_dot key) (get_property E (JObj (translations_obj st)) (currentLanguage st)) of
        None \<Rightarrow> defaultValue
      | Some v \<Rightarrow> (if truthy v then v else defaultValue))"

definition i18n_t1 :: "prototypes \<Rightarrow> i18n \<Rightarrow> string \<Rightarrow> jsv" where
  "i18n_t1 E st key = i18n_t E st key JUndefined"

text \<open>
  The lookup as the documentation of \<open>t\<close> has it ("get translation for a key"): the path
  is followed through the properties the translation data itself holds; a segment that is
  missing, or a value on the way that is not an object, gives the default, and so does a
  falsy value at the end of the path.
\<close>

fun own_path :: "string list \<Rightarrow> jsv \<Rightarrow> jsv option" where
  "own_path [] v = Some v"
| "own_path (part # parts) v =
     (case own_property v part of None \<Rightarrow> None | Some w \<Rightarrow> own_path parts w)"

definition translation_of :: "i18n \<Rightarrow> string \<Rightarrow> jsv \<Rightarrow> jsv" where
  "translation_of st key defaultValue =
     (case map_of (translations_obj st) (currentLanguage st) of
        None \<Rightarrow> defaultValue
      | Some table \<Rightarrow>
          (case own_path (split_dot key) table of
             None \<Rightarrow> defaultValue
           | Some v \<Rightarrow> (if truthy v then v else defaultValue)))"

subsection \<open>A concrete translation table\<close>

definition demo_protos :: prototypes where
  "demo_protos =
     \<lparr>object_proto =
        [''constructor'' \<mapsto> JFun ''Object'', ''toString'' \<mapsto> JFun ''toString'',
         ''valueOf'' \<mapsto> JFun ''valueOf'', ''hasOwnProperty'' \<mapsto> JFun ''hasOwnProperty''],
      array_proto =
        [''constructor'' \<mapsto> JFun ''Array'', ''toString'' \<mapsto> JFun ''toString'',
         ''join'' \<mapsto> JFun ''join'', ''map'' \<mapsto> JFun ''map'']\<rparr>"

definition demo_en :: jsv where
  "demo_en =
     JObj [(''buttons'', JObj [(''play'', JStr (js ''Play'')), (''share'', JStr [])]),
           (''messages'', JObj [(''ready'', JStr (js ''Ready''))])]"

definition demo_i18n :: i18n where
  "demo_i18n = \<lparr>currentLanguage = ''en'', translations_obj = [(''en'', demo_en)]\<rparr>"

section \<open>Typed arrays and the DataView\<close>

text \<open>
  An element of a \<open>Float32Array\<close> is an IEEE-754 binary32, kept here as its 32 bits.
  Reading it gives a Number: \<open>f32_value\<close> decodes sign, exponent and fraction (every
  binary32 is exactly a double).
\<close>

type_synonym float32 = "32 word"
type_synonym byte = "8 word"

definition f32_value :: "float32 \<Rightarrow> number" where
  "f32_value w =
     (let neg = bit w 31;
          e = unat (take_bit 8 (drop_bit 23 w));
          m = unat (take_bit 23 w);
          sign = (if neg then - 1 else 1 :: rat)
      in if e = 255 then (if m = 0 then (if neg then NInf else PInf) else NaN)
         else if e = 0 then Fin (sign * of_nat m / 2 ^ 149)
         else Fin (sign * of_nat (2 ^ 23 + m) * 2 ^ e / 2 ^ 150))"

text \<open>
  What the JavaScript engine decides. A buffer of a number of bytes is allocated, or its
  constructor throws a RangeError: every engine has a limit of its own on the length of a
  buffer, and memory can be short. And a NaN has no bits of its own once it is a Number:
  which NaN is stored for an element that was read as NaN is the engine's choice.
\<close>

record js_engine =
  can_allocate :: "nat \<Rightarrow> bool"
  nan_bits :: "float32 \<Rightarrow> float32"

text \<open>\<open>Math.min(1, x)\<close> and \<open>Math.max(-1, x)\<close>: NaN if the argument is NaN.\<close>

fun min_one :: "number \<Rightarrow> number" where
  "min_one (Fin x) = Fin (min 1 x)"
| "min_one PInf = Fin 1"
| "min_one NInf = NInf"
| "min_one NaN = NaN"

fun max_minus_one :: "number \<Rightarrow> number" where
  "max_minus_one (Fin x) = Fin (max (- 1) x)"
| "max_minus_one PInf = PInf"
| "max_minus_one NInf = Fin (- 1)"
| "max_minus_one NaN = NaN"

text \<open>\<open>x < 0\<close> (false for NaN) and \<open>x * c\<close> for a positive constant \<open>c\<close>.\<close>

fun is_negative :: "number \<Rightarrow> bool" where
  "is_negative (Fin x) = (x < 0)"
| "is_negative NInf = True"
| "is_negative v = False"

fun times_const :: "number \<Rightarrow> rat \<Rightarrow> number" where
  "times_const (Fin x) c = Fin (x * c)"
| "times_const v c = v"

text \<open>
  ToIntegerOrInfinity cuts the fraction off, toward zero; \<open>x | 0\<close> is ToInt32: the
  integer modulo \<open>2^32\<close>, read as a signed 32-bit value, and 0 for NaN and the infinities.
\<close>

definition js_truncate :: "rat \<Rightarrow> int" where
  "js_truncate x = (if 0 \<le> x then \<lfloor>x\<rfloor> else \<lceil>x\<rceil>)"

fun to_int32 :: "number \<Rightarrow> int" where
  "to_int32 (Fin x) = sint (word_of_int (js_truncate x) :: 32 word)"
| "to_int32 v = 0"

definition and_then :: "error + 'a \<Rightarrow> ('a \<Rightarrow> error + 'b) \<Rightarrow> error + 'b" where
  "and_then r f = (case r of Inl e \<Rightarrow> Inl e | Inr x \<Rightarrow> f x)"

text \<open>
  The setters of a \<open>DataView\<close> over a buffer of bytes, all called little-endian here. Each
  throws a RangeError when the bytes it writes do not lie inside the buffer. The value is
  converted as the setter's type says: the integer part of the Number, modulo \<open>2^8\<close>,
  \<open>2^16\<close> or \<open>2^32\<close> (so the signed and the unsigned setter of a width write the same
  bytes).
\<close>

definition out_of_bounds :: error where
  "out_of_bounds = RangeError ''Offset is outside the bounds of the DataView''"

definition setUint8 :: "nat \<Rightarrow> rat \<Rightarrow> byte list \<Rightarrow> error + byte list" where
  "setUint8 off v buf =
     (if off + 1 \<le> length buf then Inr (buf[off := word_of_int (js_truncate v)])
      else Inl out_of_bounds)"

definition setInt8 :: "nat \<Rightarrow> rat \<Rightarrow> byte list \<Rightarrow> error + byte list" where
  "setInt8 off v buf = setUint8 off v buf"

definition setUint16 :: "nat \<Rightarrow> rat \<Rightarrow> byte list \<Rightarrow> error + byte list" where
  "setUint16 off v buf =
     (if off + 2 \<le> length buf then
        Inr (buf[off := word_of_int (js_truncate v),
                 off + 1 := word_of_int (js_truncate v div 2 ^ 8)])
      else Inl out_of_bounds)"

definition setInt16 :: "nat \<Rightarrow> rat \<Rightarrow> byte list \<Rightarrow> error + byte list" where
  "setInt16 off v buf = setUint16 off v buf"

definition setUint32 :: "nat \<Rightarrow> rat \<Rightarrow> byte list \<Rightarrow> error + byte list" where
  "setUint32 off v buf =
     (if off + 4 \<le> length buf then
        Inr (buf[off := word_of_int (js_truncate v),
                 off + 1 := word_of_int (js_truncate v div 2 ^ 8),
                 off + 2 := word_of_int (js_truncate v div 2 ^ 16),
                 off + 3 := word_of_int (js_truncate v div 2 ^ 24)])
      else Inl out_of_bounds)"

text \<open>
  \<open>setFloat32\<close> of a Number that was read from a \<open>Float32Array\<close>. Every binary32 is
  exactly a double, so the binary32 stored for the Number is the element itself, but for
  a NaN, where it is the one the engine chooses.
\<close>

definition stored_float32 :: "js_engine \<Rightarrow> float32 \<Rightarrow> float32" where
  "stored_float32 E w = (if f32_value w = NaN then nan_bits E w else w)"

definition setFloat32 :: "js_engine \<Rightarrow> nat \<Rightarrow> float32 \<Rightarrow> byte list \<Rightarrow> error + byte list" where
  "setFloat32 E off w buf =
     (if off + 4 \<le> length buf then
        Inr (buf[off := ucast (stored_float32 E w),
                 off + 1 := ucast (drop_bit 8 (stored_float32 E w)),
                 off + 2 := ucast (drop_bit 16 (stored_float32 E w)),
                 off + 3 := ucast (drop_bit 24 (stored_float32 E w))])
      else Inl out_of_bounds)"

section \<open>The WAV encoders\<close>

text \<open>The local \<open>writeString\<close> of both encoders: one \<open>setUint8\<close> per character.\<close>

fun writeString :: "nat \<Rightarrow> string \<Rightarrow> byte list \<Rightarrow> error + byte list" where
  "writeString off [] buf = Inr buf"
| "writeString off (c # cs) buf =
     and_then (setUint8 off (of_nat (of_char c)) buf) (writeString (off + 1) cs)"

text \<open>
  The thirteen header writes, the same lines in \<open>pcmToWav\<close> and \<open>bufferToWave\<close> but for
  the format code (always 1 in \<open>pcmToWav\<close>).
\<close>

definition write_header ::
  "rat \<Rightarrow> rat \<Rightarrow> rat \<Rightarrow> rat \<Rightarrow> rat \<Rightarrow> rat \<Rightarrow> byte list \<Rightarrow> error + byte list" where
  "write_header format channels sampleRate blockAlign bitDepth dataLength buf =
     and_then (writeString 0 ''RIFF'' buf) (\<lambda>b.
     and_then (setUint32 4 (36 + dataLength) b) (\<lambda>b.
     and_then (writeString 8 ''WAVE'' b) (\<lambda>b.
     and_then (writeString 12 ''fmt '' b) (\<lambda>b.
     and_then (setUint32 16 16 b) (\<lambda>b.
     and_then (setUint16 20 format b) (\<lambda>b.
     and_then (setUint16 22 channels b) (\<lambda>b.
     and_then (setUint32 24 sampleRate b) (\<lambda>b.
     and_then (setUint32 28 (sampleRate * blockAlign) b) (\<lambda>b.
     and_then (setUint16 32 blockAlign b) (\<lambda>b.
     and_then (setUint16 34 bitDepth b) (\<lambda>b.
     and_then (writeString 36 ''data'' b) (\<lambda>b.
     setUint32 40 dataLength b))))))))))))"

text \<open>
  The integer a sample is stored as: clamped to \<open>[-1, 1]\<close>, scaled by \<open>full\<close> when
  negative and by \<open>full - 1\<close> otherwise, then \<open>| 0\<close>. The products are exact: a binary32
  times an integer below \<open>2^24\<close> fits a double.
\<close>

definition pcm_int :: "rat \<Rightarrow> float32 \<Rightarrow> int" where
  "pcm_int full x =
     (let sample = max_minus_one (min_one (f32_value x));
          pcm = (if is_negative sample then times_const sample full else times_const sample (full - 1))
      in to_int32 pcm)"

text \<open>The sample loops: \<open>index\<close> is the offset of the next write.\<close>

fun write_int16 :: "float32 list \<Rightarrow> nat \<Rightarrow> byte list \<Rightarrow> error + byte list" where
  "write_int16 [] index buf = Inr buf"
| "write_int16 (x # xs) index buf =
     and_then (setInt16 index (of_int (pcm_int 32768 x)) buf) (write_int16 xs (index + 2))"

fun write_int24 :: "float32 list \<Rightarrow> nat \<Rightarrow> byte list \<Rightarrow> error + byte list" where
  "write_int24 [] index buf = Inr buf"
| "write_int24 (x # xs) index buf =
     (let val = pcm_int 8388608 x in
      and_then (setInt8 index (of_int (val AND 255)) buf) (\<lambda>b.
      and_then (setInt8 (index + 1) (of_int (drop_bit 8 val AND 255)) b) (\<lambda>b.
      and_then (setInt8 (index + 2) (of_int (drop_bit 16 val AND 255)) b)
        (write_int24 xs (index + 3)))))"

fun write_float32 :: "js_engine \<Rightarrow> float32 list \<Rightarrow> nat \<Rightarrow> byte list \<Rightarrow> error + byte list" where
  "write_float32 E [] index buf = Inr buf"
| "write_float32 E (x # xs) index buf =
     and_then (setFloat32 E index x buf) (write_float32 E xs (index + 4))"

text \<open>
  \<open>new ArrayBuffer(n)\<close>: the fraction of a fractional \<open>n\<close> is cut off; a length that is
  negative or above \<open>Number.MAX_SAFE_INTEGER\<close> is refused, and so is a length the engine
  does not allocate. The buffer is that many zero bytes. \<open>new Float32Array(n)\<close> for a
  length \<open>n\<close> takes four bytes an element.
\<close>

definition MAX_SAFE_INTEGER :: nat where
  "MAX_SAFE_INTEGER = 2 ^ 53 - 1"

definition invalid_length :: error where
  "invalid_length = RangeError ''Invalid array buffer length''"

definition allocation_failed :: error where
  "allocation_failed = RangeError ''Array buffer allocation failed''"

definition new_ArrayBuffer :: "js_engine \<Rightarrow> rat \<Rightarrow> error + byte list" where
  "new_ArrayBuffer E n =
     (if 0 \<le> js_truncate n \<and> js_truncate n \<le> int MAX_SAFE_INTEGER then
        (if can_allocate E (nat (js_truncate n)) then Inr (replicate (nat (js_truncate n)) 0)
         else Inl allocation_failed)
      else Inl invalid_length)"

definition new_Float32Array :: "js_engine \<Rightarrow> nat \<Rightarrow> error + float32 list" where
  "new_Float32Array E n =
     (if 4 * n \<le> MAX_SAFE_INTEGER then
        (if can_allocate E (4 * n) then Inr (replicate n 0) else Inl allocation_failed)
      else Inl invalid_length)"

text \<open>
  The Numbers of the encoders are modelled by rationals and their arithmetic is exact. A
  Number is a double: its arithmetic is exact as long as the arguments and every value
  computed from them are integers up to \<open>Number.MAX_SAFE_INTEGER\<close> (or such an integer
  divided by 8), and rounds beyond. \<open>exact_arithmetic\<close> says of a sample rate, a channel
  count and a number of bytes per sample that they, the bit depth, the block align and the
  byte rate are such integers; the length of the buffer is one when the buffer is
  allocated. The encoders are modelled for such arguments.
\<close>

definition exact_arithmetic :: "nat \<Rightarrow> nat \<Rightarrow> nat \<Rightarrow> bool" where
  "exact_arithmetic sampleRate channels bytesPerSample \<longleftrightarrow>
     sampleRate \<le> MAX_SAFE_INTEGER
     \<and> channels \<le> MAX_SAFE_INTEGER
     \<and> 8 * bytesPerSample \<le> MAX_SAFE_INTEGER
     \<and> channels * bytesPerSample \<le> MAX_SAFE_INTEGER
     \<and> sampleRate * (channels * bytesPerSample) \<le> MAX_SAFE_INTEGER"

text \<open>The engine allocates a buffer of \<open>n\<close> bytes: the length is valid and not refused.\<close>

definition allocates :: "js_engine \<Rightarrow> nat \<Rightarrow> bool" where
  "allocates E n \<longleftrightarrow> n \<le> MAX_SAFE_INTEGER \<and> can_allocate E n"

text \<open>
  \<open>PiperEngine.pcmToWav(pcmData, sampleRate = 22050, channels = 1, bitDepth = 16)\<close>. The
  numeric arguments are non-negative integers. The result is the content of the blob.
\<close>

definition pcmToWav ::
  "js_engine \<Rightarrow> float32 list \<Rightarrow> nat \<Rightarrow> nat \<Rightarrow> nat \<Rightarrow> error + byte list" where
  "pcmToWav E pcmData sampleRate channels bitDepth =
     (let bytesPerSample = of_nat bitDepth / 8;
          blockAlign = of_nat channels * bytesPerSample;
          dataLength = of_nat (length pcmData) * bytesPerSample
      in and_then (new_ArrayBuffer E (44 + dataLength)) (\<lambda>buffer.
         and_then
           (write_header 1 (of_nat channels) (of_nat sampleRate) blockAlign (of_nat bitDepth)
              dataLength buffer)
           (write_int16 pcmData 44)))"

text \<open>
  An \<open>AudioBuffer\<close>: every channel holds \<open>frames\<close> samples (the buffer's \<open>length\<close>) and
  \<open>numberOfChannels\<close> is the number of channels.
\<close>

record audio_buffer =
  buffer_sampleRate :: nat
  frames :: nat
  channelData :: "float32 list list"

definition numberOfChannels :: "audio_buffer \<Rightarrow> nat" where
  "numberOfChannels a = length (channelData a)"

definition well_formed :: "audio_buffer \<Rightarrow> bool" where
  "well_formed a \<longleftrightarrow> list_all (\<lambda>c. length c = frames a) (channelData a)"

text \<open>
  The interleaving loop: frame by frame, one sample of each channel. (A read past the end
  of a channel, which a well-formed buffer never makes, gives \<open>undefined\<close>, stored as NaN.)
\<close>

definition interleave :: "audio_buffer \<Rightarrow> float32 list" where
  "interleave a =
     concat (map (\<lambda>i. map (\<lambda>c. if i < length c then c ! i else 0x7FC00000) (channelData a))
                 [0..<frames a])"

text \<open>
  \<open>AudioEngine.bufferToWave(audioBuffer, bitDepth = 16)\<close>. The format code is chosen
  before the bit depth is validated. The array for the interleaved samples is allocated
  first, and the interleaving loop writes every element of it.
\<close>

definition bufferToWave :: "js_engine \<Rightarrow> audio_buffer \<Rightarrow> nat \<Rightarrow> error + byte list" where
  "bufferToWave E audioBuffer requested =
     (let format = (if requested = 32 then 3 else 1);
          bitDepth = (if requested \<in> set [16, 24, 32] then requested else 16);
          bytesPerSample = of_nat bitDepth / 8;
          blockAlign = of_nat (numberOfChannels audioBuffer) * bytesPerSample
      in and_then (new_Float32Array E (numberOfChannels audioBuffer * frames audioBuffer))
           (\<lambda>zeros.
              (let dat = interleave audioBuffer;
                   dataLength = of_nat (length dat) * bytesPerSample
               in and_then (new_ArrayBuffer E (44 + dataLength)) (\<lambda>buffer.
                  and_then
                    (write_header format (of_nat (numberOfChannels audioBuffer))
                       (of_nat (buffer_sampleRate audioBuffer)) blockAlign (of_nat bitDepth)
                       dataLength buffer)
                    (\<lambda>b. if bitDepth = 16 then write_int16 dat 44 b
                         else if bitDepth = 24 then write_int24 dat 44 b
                         else if bitDepth = 32 then write_float32 E dat 44 b
                         else Inr b)))))"

subsection \<open>The bytes of a WAV file\<close>

text \<open>
  Little-endian encodings: the integer part of a Number in two and in four bytes (modulo
  \<open>2^16\<close> and \<open>2^32\<close>), the character codes of an ASCII string, and the 44 header bytes
  in the order of their offsets: \<open>RIFF\<close> at 0, the chunk size at 4, \<open>WAVE\<close> at 8,
  \<open>fmt \<close> at 12, the fmt chunk size at 16, the format code at 20, the channel count at 22,
  the sample rate at 24, the byte rate at 28, the block align at 32, the bits per sample at
  34, \<open>data\<close> at 36 and the data length at 40. \<open>le_nat\<close> reads a little-endian field
  back, and \<open>riff_header\<close> says what each field of a buffer holds. \<open>int16_bytes\<close>,
  \<open>int24_bytes\<close> and \<open>float32_bytes\<close> are the bytes of one sample at 16, 24 and 32 bits,
  and \<open>effective_bitDepth\<close> is the bit depth \<open>bufferToWave\<close> works with.
\<close>

definition le16 :: "rat \<Rightarrow> byte list" where
  "le16 v = [word_of_int (js_truncate v), word_of_int (js_truncate v div 2 ^ 8)]"

definition le32 :: "rat \<Rightarrow> byte list" where
  "le32 v = [word_of_int (js_truncate v), word_of_int (js_truncate v div 2 ^ 8),
             word_of_int (js_truncate v div 2 ^ 16), word_of_int (js_truncate v div 2 ^ 24)]"

definition ascii :: "string \<Rightarrow> byte list" where
  "ascii s = map (\<lambda>c. of_nat (of_char c)) s"

definition header_bytes :: "rat \<Rightarrow> rat \<Rightarrow> rat \<Rightarrow> rat \<Rightarrow> rat \<Rightarrow> rat \<Rightarrow> byte list" where
  "header_bytes format channels sampleRate blockAlign bitDepth dataLength =
     ascii ''RIFF'' @ le32 (36 + dataLength) @ ascii ''WAVE'' @ ascii ''fmt '' @ le32 16
     @ le16 format @ le16 channels @ le32 sampleRate @ le32 (sampleRate * blockAlign)
     @ le16 blockAlign @ le16 bitDepth @ ascii ''data'' @ le32 dataLength"

definition int16_bytes :: "float32 \<Rightarrow> byte list" where
  "int16_bytes x = le16 (of_int (pcm_int 32768 x))"

definition int24_bytes :: "float32 \<Rightarrow> byte list" where
  "int24_bytes x =
     (let val = pcm_int 8388608 x
      in [word_of_int val, word_of_int (val div 2 ^ 8), word_of_int (val div 2 ^ 16)])"

definition float32_bytes :: "js_engine \<Rightarrow> float32 \<Rightarrow> byte list" where
  "float32_bytes E w =
     [ucast (stored_float32 E w), ucast (drop_bit 8 (stored_float32 E w)),
      ucast (drop_bit 16 (stored_float32 E w)), ucast (drop_bit 24 (stored_float32 E w))]"

definition effective_bitDepth :: "nat \<Rightarrow> nat" where
  "effective_bitDepth requested = (if requested \<in> set [16, 24, 32] then requested else 16)"

definition sample_bytes :: "js_engine \<Rightarrow> nat \<Rightarrow> float32 \<Rightarrow> byte list" where
  "sample_bytes E bitDepth =
     (if bitDepth = 16 then int16_bytes else if bitDepth = 24 then int24_bytes
      else float32_bytes E)"

definition le_nat :: "byte list \<Rightarrow> nat" where
  "le_nat bs = foldr (\<lambda>b n. unat b + 256 * n) bs 0"

definition field :: "nat \<Rightarrow> nat \<Rightarrow> byte list \<Rightarrow> nat" where
  "field off width buf = le_nat (take width (drop off buf))"

definition riff_header :: "byte list \<Rightarrow> nat \<Rightarrow> nat \<Rightarrow> nat \<Rightarrow> nat \<Rightarrow> bool" where
  "riff_header buf channels sampleRate bytesPerSample dataLength \<longleftrightarrow>
     take 4 buf = ascii ''RIFF''
     \<and> field 4 4 buf = (36 + dataLength) mod 2 ^ 32
     \<and> take 4 (drop 8 buf) = ascii ''WAVE''
     \<and> take 4 (drop 12 buf) = ascii ''fmt ''
     \<and> field 16 4 buf = 16
     \<and> field 22 2 buf = channels mod 2 ^ 16
     \<and> field 24 4 buf = sampleRate mod 2 ^ 32
     \<and> field 28 4 buf = (sampleRate * (channels * bytesPerSample)) mod 2 ^ 32
     \<and> field 32 2 buf = (channels * bytesPerSample) mod 2 ^ 16
     \<and> field 34 2 buf = (8 * bytesPerSample) mod 2 ^ 16
     \<and> take 4 (drop 36 buf) = ascii ''data''
     \<and> field 40 4 buf = dataLength mod 2 ^ 32"

definition mono_buffer :: "float32 list \<Rightarrow> audio_buffer" where
  "mono_buffer xs = \<lparr>buffer_sampleRate = 48000, frames = length xs, channelData = [xs]\<rparr>"

text \<open>
  An engine that allocates up to \<open>2^31 - 1\<close> bytes and stores the quiet NaN \<open>7FC00000\<close>
  for every NaN.
\<close>

definition demo_js_engine :: js_engine where
  "demo_js_engine = \<lparr>can_allocate = (\<lambda>n. n \<le> 2147483647), nan_bits = (\<lambda>w. 0x7FC00000)\<rparr>"

section \<open>The synthesis engines\<close>

subsection \<open>The text argument\<close>

text \<open>
  \<open>String.prototype.trim\<close> removes white space and line terminators from both ends; these
  are the code units it removes. A \<open>text\<close> argument is a string, or \<open>null\<close> or
  \<open>undefined\<close> (\<open>None\<close>). \<open>text_is_empty\<close> is the test
  \<open>!text || text.trim().length === 0\<close>.
\<close>

definition is_whitespace :: "16 word \<Rightarrow> bool" where
  "is_whitespace c \<longleftrightarrow>
     c \<in> set [0x9, 0xA, 0xB, 0xC, 0xD, 0x20, 0xA0, 0x1680, 0x2028, 0x2029, 0x202F, 0x205F,
               0x3000, 0xFEFF]
     \<or> (0x2000 \<le> c \<and> c \<le> 0x200A)"

definition trim :: "jstext \<Rightarrow> jstext" where
  "trim s = rev (dropWhile is_whitespace (rev (dropWhile is_whitespace s)))"

definition text_is_empty :: "jstext option \<Rightarrow> bool" where
  "text_is_empty tx = (case tx of None \<Rightarrow> True | Some s \<Rightarrow> s = [] \<or> length (trim s) = 0)"

text \<open>The string a text argument is, once it has passed that test.\<close>

definition text_string :: "jstext option \<Rightarrow> jstext" where
  "text_string tx = (case tx of None \<Rightarrow> [] | Some s \<Rightarrow> s)"

subsection \<open>What the browser and the Piper library supply\<close>

record fetch_response =
  resp_ok :: bool
  resp_status :: nat
  resp_arrayBuffer :: "error + byte list"
  resp_json :: "error + jsv"

text \<open>
  The options \<open>generate\<close> is called with, and the shapes of what it returns that
  \<open>synthesizeToSpeech\<close> tells apart, in the order it tests them: an object with a truthy
  \<open>audio\<close>, a \<open>Float32Array\<close>, an object whose \<open>buffer\<close> is an \<open>ArrayBuffer\<close>, an
  object with a truthy \<open>raw\<close>, anything else.
\<close>

record gen_options =
  opt_voice :: string
  opt_lengthScale :: number
  opt_model :: "byte list option"
  opt_config :: "jsv option"
  opt_onnx :: "byte list option"
  opt_json :: "jstext option"

datatype gen_result =
    GenAudio "float32 list" "nat option"
  | GenFloat32Array "float32 list"
  | GenBuffer "byte list"
  | GenRaw "float32 list" "nat option"
  | GenUnknown

text \<open>What the other synthesis methods return, as far as it is read: \<open>audio\<close> and \<open>sampleRate\<close>.\<close>

record synth_result =
  res_audio :: "float32 list option"
  res_sampleRate :: "nat option"

text \<open>
  The Piper library instance: each method is there (a function) or not, and a call returns
  or throws. \<open>lib_Settings\<close> says whether the instance has a truthy \<open>Settings\<close>.
\<close>

record piper_lib =
  lib_generate :: "(jstext \<Rightarrow> gen_options \<Rightarrow> error + gen_result) option"
  lib_synthesize :: "(jstext \<Rightarrow> string \<Rightarrow> number \<Rightarrow> error + synth_result option) option"
  lib_synthesizeToSpeech :: "(jstext \<Rightarrow> string \<Rightarrow> error + synth_result option) option"
  lib_Settings :: bool

text \<open>
  The browser: its JavaScript engine, \<open>fetch\<close> (it resolves with a response or rejects),
  whether an \<open>AudioContext\<close> can be constructed, whether speech synthesis is there, and how
  an utterance ends (with its \<open>end\<close> event, or with an error). Awaited promises are taken
  as settled.
\<close>

record browser =
  browser_platform :: platform
  browser_engine :: js_engine
  fetch :: "string \<Rightarrow> error + fetch_response"
  audioContextAvailable :: bool
  speechSupported :: bool
  speak :: "jstext \<Rightarrow> string \<Rightarrow> number \<Rightarrow> number \<Rightarrow> error + unit"

text \<open>What a call did to the outside: the URLs fetched and the synthesis calls made, in order.\<close>

datatype event =
    Fetched string
  | PiperGenerate jstext
  | PiperSynthesize jstext
  | PiperSynthesizeToSpeech jstext
  | Spoken jstext

subsection \<open>piper-engine.js\<close>

record voice =
  voice_id :: string
  voice_name :: "string option"
  modelPath :: "string option"

record model_data =
  md_voiceId :: string
  md_modelData :: "byte list"
  md_configData :: jsv

record piper_engine =
  piper :: "piper_lib option"
  isInitialized :: bool
  voices :: "voice list"
  selectedVoice :: "string option"
  currentModelData :: "model_data option"
  audioContext :: bool

definition not_initialized :: error where
  "not_initialized = Error ''Piper not initialized. Call initialize() first.''"

definition text_empty :: error where
  "text_empty = Error ''Text cannot be empty''"

text \<open>A path in a template literal or as the argument of \<open>fetch\<close>.\<close>

definition path_string :: "string option \<Rightarrow> string" where
  "path_string p = (case p of None \<Rightarrow> ''undefined'' | Some s \<Rightarrow> s)"

text \<open>
  \<open>this.currentModelData && this.currentModelData.voiceId === voiceId\<close>: the model of
  the voice is already held.
\<close>

definition model_cached :: "piper_engine \<Rightarrow> string \<Rightarrow> bool" where
  "model_cached pe voiceId =
     (case currentModelData pe of None \<Rightarrow> False | Some md \<Rightarrow> md_voiceId md = voiceId)"

text \<open>
  \<open>loadVoiceModel(voiceId)\<close>. The two fetches are started together; when both reject,
  the model reports the model file's error.
\<close>

definition loadVoiceModel ::
  "browser \<Rightarrow> piper_engine \<Rightarrow> string \<Rightarrow> (error + voice) \<times> piper_engine \<times> event list" where
  "loadVoiceModel B pe voiceId =
     (if piper pe = None then (Inl not_initialized, pe, [])
      else if model_cached pe voiceId then
        (Inr (case find (\<lambda>v. voice_id v = voiceId) (voices pe) of
                Some v \<Rightarrow> v
              | None \<Rightarrow> \<lparr>voice_id = voiceId, voice_name = None, modelPath = None\<rparr>),
         pe, [])
      else
        (case find (\<lambda>v. voice_id v = voiceId) (voices pe) of
           None \<Rightarrow> (Inl (Error (''Voice not found: '' @ voiceId)), pe, [])
         | Some v \<Rightarrow>
             (let modelPath = path_string (modelPath v);
                  configPath = modelPath @ ''.json'';
                  fetched = [Fetched modelPath, Fetched configPath]
              in case fetch B modelPath of
                   Inl e \<Rightarrow> (Inl e, pe, fetched)
                 | Inr modelResponse \<Rightarrow>
                     (case fetch B configPath of
                        Inl e \<Rightarrow> (Inl e, pe, fetched)
                      | Inr configResponse \<Rightarrow>
                          if \<not> resp_ok modelResponse then
                            (Inl (Error (''Failed to fetch model file: '' @ modelPath @ '' (''
                                    @ index_name (resp_status modelResponse) @ '')'')),
                             pe, fetched)
                          else if \<not> resp_ok configResponse then
                            (Inl (Error (''Failed to fetch config file: '' @ configPath @ '' (''
                                    @ index_name (resp_status configResponse)
                                    @ '') - JSON config is required!'')),
                             pe, fetched)
                          else
                            (case resp_arrayBuffer modelResponse of
                               Inl e \<Rightarrow> (Inl e, pe, fetched)
                             | Inr modelData \<Rightarrow>
                                 (case resp_json configResponse of
                                    Inl e \<Rightarrow> (Inl e, pe, fetched)
                                  | Inr configData \<Rightarrow>
                                      (Inr v,
                                       pe\<lparr>selectedVoice := Some voiceId,
                                          currentModelData :=
                                            Some \<lparr>md_voiceId = voiceId, md_modelData = modelData,
                                                   md_configData = configData\<rparr>\<rparr>,
                                       fetched)))))))"

text \<open>\<open>getAudioContext()\<close>: a missing context is constructed again if it can be.\<close>

definition getAudioContext :: "browser \<Rightarrow> piper_engine \<Rightarrow> bool \<times> piper_engine" where
  "getAudioContext B pe =
     (let pe' = (if audioContext pe then pe else pe\<lparr>audioContext := audioContextAvailable B\<rparr>)
      in (audioContext pe', pe'))"

text \<open>
  \<open>pcmToAudioBuffer(pcmData)\<close>: without a context the call of \<open>createBuffer\<close> on
  \<open>null\<close> throws a TypeError, and \<open>createBuffer\<close> refuses a length of 0.
\<close>

definition pcmToAudioBuffer ::
  "browser \<Rightarrow> piper_engine \<Rightarrow> float32 list \<Rightarrow> (error + audio_buffer) \<times> piper_engine" where
  "pcmToAudioBuffer B pe pcmData =
     (case getAudioContext B pe of
        (ctx, pe') \<Rightarrow>
          if \<not> ctx then (Inl (TypeError ''Cannot read properties of null''), pe')
          else if length pcmData = 0 then (Inl (DOMException ''NotSupportedError''), pe')
          else (Inr \<lparr>buffer_sampleRate = 22050, frames = length pcmData, channelData = [pcmData]\<rparr>,
                pe'))"

text \<open>\<open>new Float32Array(buffer)\<close>: four bytes an element, little-endian.\<close>

fun float32s_of_bytes :: "byte list \<Rightarrow> error + float32 list" where
  "float32s_of_bytes (b0 # b1 # b2 # b3 # rest) =
     and_then (float32s_of_bytes rest)
       (\<lambda>xs. Inr ((ucast b0 OR push_bit 8 (ucast b1) OR push_bit 16 (ucast b2)
                    OR push_bit 24 (ucast b3)) # xs))"
| "float32s_of_bytes [] = Inr []"
| "float32s_of_bytes bs = Inl (RangeError ''byte length of Float32Array should be a multiple of 4'')"

text \<open>\<open>n || 1\<close> and \<open>n || 22050\<close> for a number that may be missing.\<close>

definition or_one :: "number option \<Rightarrow> number" where
  "or_one n = (case n of None \<Rightarrow> Fin 1 | Some x \<Rightarrow> if truthy (JNum x) then x else Fin 1)"

definition or_22050 :: "nat option \<Rightarrow> nat" where
  "or_22050 r = (case r of None \<Rightarrow> 22050 | Some n \<Rightarrow> if n = 0 then 22050 else n)"

text \<open>
  The inner \<open>try\<close> block of \<open>synthesizeToSpeech\<close>: the first synthesis method the
  instance has is called, and its result, or the error thrown, is the block's. With a
  \<open>Settings\<close> but no \<open>synthesize\<close> function the call of \<open>synthesize\<close> throws.
\<close>

definition try_synthesis ::
  "browser \<Rightarrow> piper_engine \<Rightarrow> jstext \<Rightarrow> string \<Rightarrow> number \<Rightarrow>
   (error + synth_result option) \<times> event list" where
  "try_synthesis B pe tx voiceId lengthScale =
     (case piper pe of
        None \<Rightarrow> (Inl (TypeError ''Cannot read properties of null''), [])
      | Some lib \<Rightarrow>
          (case lib_generate lib of
             Some generate \<Rightarrow>
               (case (case currentModelData pe of
                        None \<Rightarrow> Inr None
                      | Some md \<Rightarrow>
                          (case json_stringify (browser_platform B) (md_configData md) of
                             Inl e \<Rightarrow> Inl e
                           | Inr s \<Rightarrow> Inr s)) of
                  Inl e \<Rightarrow> (Inl e, [])
                | Inr json \<Rightarrow>
                    (let genOptions =
                           \<lparr>opt_voice = voiceId, opt_lengthScale = lengthScale,
                            opt_model = map_option md_modelData (currentModelData pe),
                            opt_config = map_option md_configData (currentModelData pe),
                            opt_onnx = map_option md_modelData (currentModelData pe),
                            opt_json = json\<rparr>
                     in ((case generate tx genOptions of
                           Inl e \<Rightarrow> Inl e
                         | Inr (GenAudio a sr) \<Rightarrow>
                             Inr (Some \<lparr>res_audio = Some a, res_sampleRate = Some (or_22050 sr)\<rparr>)
                         | Inr (GenFloat32Array a) \<Rightarrow>
                             Inr (Some \<lparr>res_audio = Some a, res_sampleRate = Some 22050\<rparr>)
                         | Inr (GenBuffer bs) \<Rightarrow>
                             and_then (float32s_of_bytes bs)
                               (\<lambda>a. Inr (Some \<lparr>res_audio = Some a, res_sampleRate = Some 22050\<rparr>))
                         | Inr (GenRaw a sr) \<Rightarrow>
                             Inr (Some \<lparr>res_audio = Some a, res_sampleRate = Some (or_22050 sr)\<rparr>)
                         | Inr GenUnknown \<Rightarrow> Inl (Error ''Unknown Piper generate() result format'')),
                         [PiperGenerate tx])))
           | None \<Rightarrow>
               (case lib_synthesize lib of
                  Some synthesize \<Rightarrow> (synthesize tx voiceId lengthScale, [PiperSynthesize tx])
                | None \<Rightarrow>
                    (case lib_synthesizeToSpeech lib of
                       Some synthesizeToSpeech \<Rightarrow>
                         (synthesizeToSpeech tx voiceId, [PiperSynthesizeToSpeech tx])
                     | None \<Rightarrow>
                         if lib_Settings lib
                         then (Inl (TypeError ''this.piper.synthesize is not a function''), [])
                         else (Inl (Error ''Cannot find synthesis method on Piper instance''), [])))))"

record synth_options =
  option_voiceId :: "string option"
  option_lengthScale :: "number option"
  option_rate :: "number option"
  option_pitch :: "number option"
  option_forcePiper :: bool

record piper_result =
  r_success :: bool
  r_pcm :: "float32 list"
  r_audioBuffer :: audio_buffer
  r_sampleRate :: nat
  r_duration :: rat
  r_text :: jstext
  r_voiceId :: string

text \<open>\<open>a || b\<close> for strings that may be missing: the first one that is there and not empty.\<close>

definition first_truthy :: "string option \<Rightarrow> string option \<Rightarrow> string option" where
  "first_truthy a b = (case a of None \<Rightarrow> b | Some s \<Rightarrow> if s = [] then b else Some s)"

definition silence :: synth_result where
  "silence = \<lparr>res_audio = Some (replicate 22050 0), res_sampleRate = Some 22050\<rparr>"

text \<open>
  \<open>PiperEngine.synthesizeToSpeech(text, options)\<close>. What the outer \<open>try\<close> catches is
  thrown again, so every error outside the inner block is the call's.
\<close>

definition PiperEngine_synthesizeToSpeech ::
  "browser \<Rightarrow> piper_engine \<Rightarrow> jstext option \<Rightarrow> synth_options \<Rightarrow>
   (error + piper_result) \<times> piper_engine \<times> event list" where
  "PiperEngine_synthesizeToSpeech B pe tx options =
     (if \<not> isInitialized pe then (Inl not_initialized, pe, [])
      else if text_is_empty tx then (Inl text_empty, pe, [])
      else
        (case first_truthy (first_truthy (option_voiceId options) (selectedVoice pe)) None of
           None \<Rightarrow> (Inl (Error ''No voice selected''), pe, [])
         | Some voiceId \<Rightarrow>
             (let lengthScale = or_one (option_lengthScale options);
                  loaded =
                    (if selectedVoice pe \<noteq> Some voiceId
                     then (case loadVoiceModel B pe voiceId of
                             (Inl e, pe1, ev) \<Rightarrow> (Some e, pe1, ev)
                           | (Inr v, pe1, ev) \<Rightarrow> (None, pe1, ev))
                     else (None, pe, []))
              in case loaded of
                   (Some e, pe1, ev1) \<Rightarrow> (Inl e, pe1, ev1)
                 | (None, pe1, ev1) \<Rightarrow>
                     (case try_synthesis B pe1 (text_string tx) voiceId lengthScale of
                        (attempt, ev2) \<Rightarrow>
                          (let result = (case attempt of Inl methodError \<Rightarrow> Some silence | Inr r \<Rightarrow> r)
                           in case result of
                                None \<Rightarrow>
                                  (Inl (TypeError ''Cannot read properties of undefined''), pe1,
                                   ev1 @ ev2)
                              | Some res \<Rightarrow>
                                  (case res_audio res of
                                     None \<Rightarrow>
                                       (Inl (TypeError ''Cannot read properties of undefined''), pe1,
                                        ev1 @ ev2)
                                   | Some audio \<Rightarrow>
                                       (case pcmToAudioBuffer B pe1 audio of
                                          (Inl e, pe2) \<Rightarrow> (Inl e, pe2, ev1 @ ev2)
                                        | (Inr audioBuffer, pe2) \<Rightarrow>
                                            (Inr \<lparr>r_success = True, r_pcm = audio,
                                                  r_audioBuffer = audioBuffer,
                                                  r_sampleRate = or_22050 (res_sampleRate res),
                                                  r_duration = of_nat (frames audioBuffer) / 22050,
                                                  r_text = text_string tx, r_voiceId = voiceId\<rparr>,
                                             pe2, ev1 @ ev2))))))))"

subsection \<open>audio-engine.js\<close>

text \<open>
  \<open>previewVoiceSample\<close> speaks the text with a system voice: it resolves when the
  utterance ends and rejects when speech synthesis is missing or the utterance fails.
\<close>

definition previewVoiceSample ::
  "browser \<Rightarrow> jstext \<Rightarrow> string option \<Rightarrow> number \<Rightarrow> number \<Rightarrow> (error + unit) \<times> event list" where
  "previewVoiceSample B tx voiceId rate pitch =
     (if \<not> speechSupported B
      then (Inl (Error ''Speech synthesis is not available on this device.''), [])
      else (speak B tx (case first_truthy voiceId None of None \<Rightarrow> ''sophia_pro'' | Some v \<Rightarrow> v)
              rate pitch,
            [Spoken tx]))"

definition cannot_export :: error where
  "cannot_export =
     Error (''System voices cannot be exported to file. Please wait for the Neural Engine ''
            @ ''to initialize or check your connection.'')"

definition speech_failed :: error where
  "speech_failed = Error ''Speech synthesis failed and export is not supported for system voices.''"

text \<open>
  \<open>synthesizeWithFallback\<close>: the promise it returns is rejected on both paths, after the
  preview has played and after it has failed.
\<close>

definition synthesizeWithFallback ::
  "browser \<Rightarrow> jstext \<Rightarrow> string option \<Rightarrow> number \<Rightarrow> number \<Rightarrow> (error + 'a) \<times> event list" where
  "synthesizeWithFallback B tx voiceId rate pitch =
     (case previewVoiceSample B tx voiceId rate pitch of
        (Inr u, ev) \<Rightarrow> (Inl cannot_export, ev)
      | (Inl e, ev) \<Rightarrow> (Inl speech_failed, ev))"

text \<open>The result object of the integration layer.\<close>

record speech_result =
  s_success :: bool
  s_blob :: "byte list"
  s_duration :: rat
  s_text :: jstext
  s_voiceId :: string
  s_isPiper :: bool
  s_rawAudio :: audio_buffer

definition AudioEngine_synthesizeToSpeech ::
  "browser \<Rightarrow> jstext option \<Rightarrow> synth_options \<Rightarrow> (error + speech_result) \<times> event list" where
  "AudioEngine_synthesizeToSpeech B tx options =
     (if \<not> speechSupported B
      then (Inl (Error ''Speech synthesis is not available in this browser/device.''), [])
      else if text_is_empty tx then (Inl text_empty, [])
      else synthesizeWithFallback B (text_string tx) (first_truthy (option_voiceId options) None)
             (or_one (option_rate options)) (or_one (option_pitch options)))"

subsection \<open>The integration layer: VoiceForgeEngine and PiperIntegration\<close>

record voiceforge_engine =
  piperEngine :: piper_engine
  usePiper :: bool
  piperReady :: bool

text \<open>
  \<open>VoiceForgeEngine.synthesizeToSpeech(text, options)\<close>. An error of the Piper call, or
  of the WAV encoding of its result, is caught: \<open>usePiper\<close> is switched off and the call
  goes on to the Web Speech backend.
\<close>

definition VoiceForgeEngine_synthesizeToSpeech ::
  "browser \<Rightarrow> voiceforge_engine \<Rightarrow> jstext option \<Rightarrow> synth_options \<Rightarrow>
   (error + speech_result) \<times> voiceforge_engine \<times> event list" where
  "VoiceForgeEngine_synthesizeToSpeech B st tx options =
     (if text_is_empty tx then (Inl text_empty, st, [])
      else
        (let fallback = (\<lambda>st' ev.
               (case AudioEngine_synthesizeToSpeech B tx options of
                  (r, ev') \<Rightarrow> (r, st', ev @ ev')))
         in if piperReady st \<and> usePiper st then
              (case PiperEngine_synthesizeToSpeech B (piperEngine st) tx options of
                 (Inr result, pe, ev) \<Rightarrow>
                   (case pcmToWav (browser_engine B) (r_pcm result) 22050 1 16 of
                      Inr blob \<Rightarrow>
                        (Inr \<lparr>s_success = True, s_blob = blob, s_duration = r_duration result,
                              s_text = text_string tx, s_voiceId = r_voiceId result,
                              s_isPiper = True, s_rawAudio = r_audioBuffer result\<rparr>,
                         st\<lparr>piperEngine := pe\<rparr>, ev)
                    | Inl piperError \<Rightarrow> fallback (st\<lparr>piperEngine := pe, usePiper := False\<rparr>) ev)
               | (Inl piperError, pe, ev) \<Rightarrow>
                   fallback (st\<lparr>piperEngine := pe, usePiper := False\<rparr>) ev)
            else fallback st []))"

record piper_integration =
  engine :: voiceforge_engine
  initialized :: bool

text \<open>
  The polling loop of \<open>generateSpeech\<close>: at most 25 sleeps of 200 ms while Piper is not
  ready. \<open>background\<close> is what the rest of the program does to the engine during one
  sleep.
\<close>

fun wait_for_piper ::
  "(voiceforge_engine \<Rightarrow> voiceforge_engine) \<Rightarrow> nat \<Rightarrow> voiceforge_engine \<Rightarrow> voiceforge_engine" where
  "wait_for_piper background 0 e = e"
| "wait_for_piper background (Suc attempts_left) e =
     (if piperReady e then e else wait_for_piper background attempts_left (background e))"

text \<open>\<open>setPiperEnabled(true)\<close>.\<close>

definition setPiperEnabled_true :: "voiceforge_engine \<Rightarrow> voiceforge_engine" where
  "setPiperEnabled_true e = (if \<not> piperReady e then e else e\<lparr>usePiper := True\<rparr>)"

definition generateSpeech ::
  "browser \<Rightarrow> (voiceforge_engine \<Rightarrow> voiceforge_engine) \<Rightarrow> piper_integration \<Rightarrow> jstext option \<Rightarrow>
   synth_options \<Rightarrow> (error + speech_result) \<times> piper_integration \<times> event list" where
  "generateSpeech B background st tx options =
     (if \<not> initialized st
      then (Inl (Error ''TTS Engine not initialized. Call initialize() first.''), st, [])
      else if text_is_empty tx then (Inl text_empty, st, [])
      else
        (let e1 = (if option_forcePiper options then wait_for_piper background 25 (engine st)
                   else engine st)
         in if option_forcePiper options \<and> \<not> piperReady e1
            then (Inl (Error ''Piper TTS engine failed to initialize''), st\<lparr>engine := e1\<rparr>, [])
            else
              (case VoiceForgeEngine_synthesizeToSpeech B
                      (if option_forcePiper options then setPiperEnabled_true e1 else e1) tx options of
                 (r, e2, ev) \<Rightarrow> (r, st\<lparr>engine := e2\<rparr>, ev))))"

subsection \<open>A concrete browser and engine\<close>

definition demo_voice :: "string \<Rightarrow> string \<Rightarrow> voice" where
  "demo_voice ident name =
     \<lparr>voice_id = ident, voice_name = Some name,
      modelPath = Some (''/public/tts-web/onnx/'' @ ident @ ''.onnx'')\<rparr>"

definition lessac :: voice where
  "lessac = demo_voice ''en_US-lessac-high'' ''EN US-LESSAC-HIGH''"

definition john :: voice where
  "john = demo_voice ''en_US-john-medium'' ''EN US-JOHN-MEDIUM''"

definition alan :: voice where
  "alan = demo_voice ''en_GB-alan-medium'' ''EN GB-ALAN-MEDIUM''"

definition found :: "byte list \<Rightarrow> jsv \<Rightarrow> fetch_response" where
  "found bytes config =
     \<lparr>resp_ok = True, resp_status = 200, resp_arrayBuffer = Inr bytes, resp_json = Inr config\<rparr>"

definition not_found :: fetch_response where
  "not_found =
     \<lparr>resp_ok = False, resp_status = 404, resp_arrayBuffer = Inr [],
      resp_json = Inl (SyntaxError ''Unexpected token'')\<rparr>"

text \<open>
  A browser that serves the models of two voices, the config of one of them only, and
  speaks every utterance to its end.
\<close>

definition demo_fetch :: "string \<Rightarrow> error + fetch_response" where
  "demo_fetch url =
     (if url = ''/public/tts-web/onnx/en_US-john-medium.onnx'' then Inr (found [79, 78] JNull)
      else if url = ''/public/tts-web/onnx/en_US-john-medium.onnx.json'' then Inr (found [] (JObj []))
      else if url = ''/public/tts-web/onnx/en_GB-alan-medium.onnx'' then Inr (found [79, 78] JNull)
      else Inr not_found)"

definition demo_browser :: "bool \<Rightarrow> browser" where
  "demo_browser audio =
     \<lparr>browser_platform = demo_platform [(JObj [], js ''{}'')],
      browser_engine = demo_js_engine,
      fetch = demo_fetch,
      audioContextAvailable = audio,
      speechSupported = True,
      speak = (\<lambda>tx v rate pitch. Inr ())\<rparr>"

definition discovered :: "voice list" where
  "discovered = [lessac, john, alan]"

text \<open>A Piper instance whose only synthesis method throws.\<close>

definition failing_lib :: piper_lib where
  "failing_lib =
     \<lparr>lib_generate = Some (\<lambda>tx opts. Inl (Error ''inference failed'')),
      lib_synthesize = None, lib_synthesizeToSpeech = None, lib_Settings = False\<rparr>"

definition demo_engine :: "bool \<Rightarrow> piper_engine" where
  "demo_engine audio =
     \<lparr>piper = Some failing_lib, isInitialized = True, voices = discovered,
      selectedVoice = Some ''en_US-lessac-high'',
      currentModelData =
        Some \<lparr>md_voiceId = ''en_US-lessac-high'', md_modelData = [79, 78], md_configData = JObj []\<rparr>,
      audioContext = audio\<rparr>"

definition no_options :: synth_options where
  "no_options =
     \<lparr>option_voiceId = None, option_lengthScale = None, option_rate = None, option_pitch = None,
      option_forcePiper = False\<rparr>"


definition whitespace_only :: "jstext option" where
  "whitespace_only = Some [0x20, 0x9, 0xA0]"

definition demo_voiceforge :: voiceforge_engine where
  "demo_voiceforge = \<lparr>piperEngine = demo_engine True, usePiper = True, piperReady = True\<rparr>"

definition demo_integration :: piper_integration where
  "demo_integration = \<lparr>engine = demo_voiceforge, initialized = True\<rparr>"





section \<open>Properties of the history\<close>

lemma history_addToHistory:
  "history (fst (addToHistory P VOICES now ts tx vid d s)) =
     (let h1 = new_item VOICES now ts tx vid d # history (fst s)
      in if length h1 > 10 then butlast h1 else h1)"
  by (simp add: addToHistory_def Let_def renderHistory_def)

lemma history_deleteHistoryItem:
  "history (fst (deleteHistoryItem P ident s)) = filter (\<lambda>x. item_id x \<noteq> ident) (history (fst s))"
  by (simp add: deleteHistoryItem_def Let_def renderHistory_def)

lemma apply_history_op_bound:
  assumes "length (history (fst s)) \<le> 10"
  shows "length (history (fst (apply_history_op P VOICES x s))) \<le> 10"
proof (cases x)
  case (Add now ts tx vid d)
  with assms show ?thesis
    by (simp add: history_addToHistory Let_def)
next
  case (Delete ident)
  have "length (filter (\<lambda>x. item_id x \<noteq> ident) (history (fst s))) \<le> length (history (fst s))"
    by (rule length_filter_le)
  also note assms
  finally show ?thesis
    using Delete by (simp add: history_deleteHistoryItem)
qed

text \<open>
  C10. Starting from a history of at most 10 items, every sequence of \<open>addToHistory\<close>
  calls and delete clicks leaves at most 10 items; and an \<open>addToHistory\<close> on a history of
  at most 10 items puts the new item at the front, dropping the last (oldest) item exactly
  when the list would otherwise hold more than 10.
\<close>

theorem history_never_exceeds_ten:
  assumes "length (history (fst s)) \<le> 10"
  shows "length (history (fst (run_history_ops P VOICES ops s))) \<le> 10
       \<and> history (fst (addToHistory P VOICES now ts tx vid d s)) =
           new_item VOICES now ts tx vid d #
             (if length (history (fst s)) = 10 then butlast (history (fst s)) else history (fst s))"
proof
  from assms show "length (history (fst (run_history_ops P VOICES ops s))) \<le> 10"
  proof (induction ops arbitrary: s)
    case Nil
    then show ?case by simp
  next
    case (Cons x xs)
    from Cons.prems have "length (history (fst (apply_history_op P VOICES x s))) \<le> 10"
      by (rule apply_history_op_bound)
    then show ?case
      using Cons.IH by simp
  qed
next
  from assms show "history (fst (addToHistory P VOICES now ts tx vid d s)) =
      new_item VOICES now ts tx vid d #
        (if length (history (fst s)) = 10 then butlast (history (fst s)) else history (fst s))"
    by (cases "history (fst s)") (auto simp: history_addToHistory Let_def)
qed

theorem history_never_exceeds_ten_witness:
  "length (history (fst demo_state)) \<le> 10
   \<and> length (history (fst (run_history_ops (demo_platform []) demo_voices demo_ops demo_state))) \<le> 10
   \<and> history (fst (addToHistory (demo_platform []) demo_voices 11 (js ''10:16:00'') (js ''One more'')
          ''en_US-lessac-high'' (Fin 3) demo_state)) =
       new_item demo_voices 11 (js ''10:16:00'') (js ''One more'') ''en_US-lessac-high'' (Fin 3) #
         butlast demo_full_history"
proof -
  have len: "length (history (fst demo_state)) \<le> 10"
    by (simp add: demo_state_def demo_full_history_def)
  have "length (history (fst demo_state)) = 10"
    by (simp add: demo_state_def demo_full_history_def)
  moreover have "history (fst demo_state) = demo_full_history"
    by (simp add: demo_state_def)
  ultimately show ?thesis
    using len history_never_exceeds_ten [OF len, of "demo_platform []" demo_voices demo_ops
        11 "js ''10:16:00''" "js ''One more''" "''en_US-lessac-high''" "Fin 3"]
    by simp
qed













section \<open>Properties of the service worker\<close>

lemma caches_put_match:
  "caches_match cs u = None \<Longrightarrow> caches_match (caches_put cs name u r) u = Some r"
  by (induction cs) (auto split: option.splits)

text \<open>
  C8. The fetch handler. A request that is not a GET is not intercepted. For a GET, a
  cached response that matches is returned and the network is not touched. On a cache miss
  the request goes to the network and its response is returned; the cache changes only for
  a status-200 response that is not of type error (and then holds that response), and
  stays as it was for any other response. When the network fetch fails the worker responds
  with what the cache holds for \<open>/index.html\<close>.
\<close>

theorem sw_fetch_behaviour:
  "(request_method req \<noteq> ''GET'' \<longrightarrow>
      sw_fetch env req caches =
        \<lparr>outcome = NotIntercepted, caches_after = caches, network_requests = []\<rparr>)
   \<and> (request_method req = ''GET'' \<and> caches_match caches (request_url req) = Some r \<longrightarrow>
      sw_fetch env req caches =
        \<lparr>outcome = RespondWith (Some r), caches_after = caches, network_requests = []\<rparr>)
   \<and> (request_method req = ''GET'' \<and> caches_match caches (request_url req) = None
        \<and> network env req = Inr r \<longrightarrow>
      outcome (sw_fetch env req caches) = RespondWith (Some r)
      \<and> network_requests (sw_fetch env req caches) = [req]
      \<and> (caches_after (sw_fetch env req caches) \<noteq> caches \<longrightarrow>
           status r = 200 \<and> response_type r \<noteq> ErrorResponse
           \<and> caches_match (caches_after (sw_fetch env req caches)) (request_url req) = Some r)
      \<and> (status r \<noteq> 200 \<or> response_type r = ErrorResponse \<longrightarrow>
           caches_after (sw_fetch env req caches) = caches)
      \<and> (status r = 200 \<and> response_type r \<noteq> ErrorResponse \<and> put_accepts env req r \<longrightarrow>
           caches_match (caches_after (sw_fetch env req caches)) (request_url req) = Some r))
   \<and> (request_method req = ''GET'' \<and> caches_match caches (request_url req) = None
        \<and> network env req = Inl e \<longrightarrow>
      sw_fetch env req caches =
        \<lparr>outcome = RespondWith (caches_match caches ''/index.html''), caches_after = caches,
         network_requests = [req]\<rparr>)"
  by (auto simp: sw_fetch_def caches_put_match)

theorem sw_fetch_behaviour_witness:
  "request_method \<lparr>request_method = ''POST'', request_url = ''/api''\<rparr> \<noteq> ''GET''
   \<and> sw_fetch demo_network \<lparr>request_method = ''POST'', request_url = ''/api''\<rparr> demo_caches =
       \<lparr>outcome = NotIntercepted, caches_after = demo_caches, network_requests = []\<rparr>
   \<and> caches_match demo_caches ''/index.html'' = Some demo_index
   \<and> sw_fetch demo_network (GET ''/index.html'') demo_caches =
       \<lparr>outcome = RespondWith (Some demo_index), caches_after = demo_caches, network_requests = []\<rparr>
   \<and> caches_match demo_caches ''/styles/main.css'' = None
   \<and> network demo_network (GET ''/styles/main.css'') = Inr demo_css
   \<and> outcome (sw_fetch demo_network (GET ''/styles/main.css'') demo_caches) = RespondWith (Some demo_css)
   \<and> network_requests (sw_fetch demo_network (GET ''/styles/main.css'') demo_caches) =
       [GET ''/styles/main.css'']
   \<and> caches_match (caches_after (sw_fetch demo_network (GET ''/styles/main.css'') demo_caches))
       ''/styles/main.css'' = Some demo_css
   \<and> network demo_network (GET ''/nothing'') = Inr demo_missing
   \<and> status demo_missing \<noteq> 200
   \<and> caches_after (sw_fetch demo_network (GET ''/nothing'') demo_caches) = demo_caches
   \<and> network demo_network (GET ''/js/app.js'') = Inl (TypeError ''Failed to fetch'')
   \<and> sw_fetch demo_network (GET ''/js/app.js'') demo_caches =
       \<lparr>outcome = RespondWith (Some demo_index), caches_after = demo_caches,
        network_requests = [GET ''/js/app.js'']\<rparr>"
proof -
  have m1: "caches_match demo_caches ''/index.html'' = Some demo_index"
    and m2: "caches_match demo_caches ''/styles/main.css'' = None"
    and m3: "caches_match demo_caches ''/nothing'' = None"
    and m4: "caches_match demo_caches ''/js/app.js'' = None"
    by (simp_all add: demo_caches_def)
  have n2: "network demo_network (GET ''/styles/main.css'') = Inr demo_css"
    and n3: "network demo_network (GET ''/nothing'') = Inr demo_missing"
    and n4: "network demo_network (GET ''/js/app.js'') = Inl (TypeError ''Failed to fetch'')"
    and p2: "put_accepts demo_network (GET ''/styles/main.css'') demo_css"
    by (simp_all add: demo_network_def GET_def)
  have s2: "status demo_css = 200 \<and> response_type demo_css \<noteq> ErrorResponse"
    and s3: "status demo_missing \<noteq> 200"
    by (simp_all add: demo_css_def demo_missing_def)
  have g: "\<And>u. request_method (GET u) = ''GET'' \<and> request_url (GET u) = u"
    by (simp add: GET_def)
  from sw_fetch_behaviour [of "\<lparr>request_method = ''POST'', request_url = ''/api''\<rparr>"
      demo_network demo_caches]
  have a: "sw_fetch demo_network \<lparr>request_method = ''POST'', request_url = ''/api''\<rparr> demo_caches =
       \<lparr>outcome = NotIntercepted, caches_after = demo_caches, network_requests = []\<rparr>"
    by simp
  from sw_fetch_behaviour [of "GET ''/index.html''" demo_network demo_caches demo_index] m1 g
  have b: "sw_fetch demo_network (GET ''/index.html'') demo_caches =
       \<lparr>outcome = RespondWith (Some demo_index), caches_after = demo_caches, network_requests = []\<rparr>"
    by simp
  from sw_fetch_behaviour [of "GET ''/styles/main.css''" demo_network demo_caches demo_css] m2 n2 p2 s2 g
  have c: "outcome (sw_fetch demo_network (GET ''/styles/main.css'') demo_caches) = RespondWith (Some demo_css)
     \<and> network_requests (sw_fetch demo_network (GET ''/styles/main.css'') demo_caches) =
         [GET ''/styles/main.css'']
     \<and> caches_match (caches_after (sw_fetch demo_network (GET ''/styles/main.css'') demo_caches))
         ''/styles/main.css'' = Some demo_css"
    by simp
  from sw_fetch_behaviour [of "GET ''/nothing''" demo_network demo_caches demo_missing] m3 n3 s3 g
  have d: "caches_after (sw_fetch demo_network (GET ''/nothing'') demo_caches) = demo_caches"
    by simp
  from sw_fetch_behaviour [of "GET ''/js/app.js''" demo_network demo_caches _
      "TypeError ''Failed to fetch''"] m1 m4 n4 g
  have e: "sw_fetch demo_network (GET ''/js/app.js'') demo_caches =
       \<lparr>outcome = RespondWith (Some demo_index), caches_after = demo_caches,
        network_requests = [GET ''/js/app.js'']\<rparr>"
    by simp
  from a b c d e m1 m2 n2 n3 n4 s3 show ?thesis
    by simp
qed

section \<open>Properties of the translation lookup\<close>

lemma walk_own_path:
  assumes "\<forall>p \<in> set parts. object_proto E p = None \<and> array_proto E p = None"
  shows "walk E parts v = own_path parts v"
  using assms
proof (induction parts arbitrary: v)
  case Nil
  show ?case by simp
next
  case (Cons part parts)
  have inh: "inherited_property E v part = None"
    using Cons.prems by (cases v) simp_all
  show ?case
  proof (cases "own_property v part")
    case None
    then show ?thesis
      using inh by (simp add: has_property_def)
  next
    case (Some w)
    then have obj: "truthy v \<and> typeof_object v"
      by (cases v) simp_all
    from Some obj inh Cons.IH [of w] Cons.prems show ?thesis
      by (simp add: has_property_def get_property_def)
  qed
qed

text \<open>
  As long as neither the language code nor a segment of the key names a property the
  built-in prototypes supply, \<open>t\<close> is the documented lookup: the value at the end of the
  path, or the default when a segment is missing, a value on the way is not an object, or
  the value found is falsy.
\<close>

lemma i18n_t_own_path:
  assumes "object_proto E (currentLanguage st) = None"
    and "\<forall>p \<in> set (split_dot key). object_proto E p = None \<and> array_proto E p = None"
  shows "i18n_t E st key d = translation_of st key (default_parameter key d)"
proof (cases "map_of (translations_obj st) (currentLanguage st)")
  case None
  with assms(1) have "get_property E (JObj (translations_obj st)) (currentLanguage st) = JUndefined"
    by (simp add: get_property_def)
  moreover have "split_dot key \<noteq> []"
    by (cases key) (simp_all split: list.splits)
  then obtain part parts where "split_dot key = part # parts"
    by (cases "split_dot key") simp_all
  ultimately show ?thesis
    using None by (simp add: i18n_t_def translation_of_def Let_def)
next
  case (Some table)
  then have "get_property E (JObj (translations_obj st)) (currentLanguage st) = table"
    by (simp add: get_property_def)
  with Some walk_own_path [OF assms(2)] show ?thesis
    by (simp add: i18n_t_def translation_of_def Let_def)
qed

lemma js_eq_Nil [simp]: "js s = [] \<longleftrightarrow> s = []"
  by (simp add: js_def)

lemma i18n_t_demo_found:
  "i18n_t1 demo_protos demo_i18n ''buttons.play'' = JStr (js ''Play'')
   \<and> i18n_t1 demo_protos demo_i18n ''buttons.share'' = JStr (js ''buttons.share'')
   \<and> i18n_t1 demo_protos demo_i18n ''buttons.stop'' = JStr (js ''buttons.stop'')
   \<and> i18n_t1 demo_protos demo_i18n ''buttons.play.label'' = JStr (js ''buttons.play.label'')"
  by (simp add: i18n_t1_def i18n_t_def default_parameter_def demo_i18n_def demo_en_def
      demo_protos_def get_property_def has_property_def)

text \<open>
  C7. \<open>I18n.t\<close> returns the default value whenever a segment of the key is missing from
  the translations. The code tests a segment with the \<open>in\<close> operator, which also finds
  what an object inherits: for the key \<open>toString\<close>, which the translations do not hold,
  \<open>t\<close> returns the inherited function and not the default (the key itself), and likewise
  at the end of a longer path.
\<close>

theorem i18n_t_inherited_segment:
  "own_property demo_en ''toString'' = None
   \<and> translation_of demo_i18n ''toString'' (JStr (js ''toString'')) = JStr (js ''toString'')
   \<and> i18n_t1 demo_protos demo_i18n ''toString'' = JFun ''toString''
   \<and> i18n_t1 demo_protos demo_i18n ''toString'' \<noteq> JStr (js ''toString'')
   \<and> i18n_t1 demo_protos demo_i18n ''buttons.constructor'' = JFun ''Object''"
  by (simp add: i18n_t1_def i18n_t_def default_parameter_def translation_of_def demo_i18n_def
      demo_en_def demo_protos_def get_property_def has_property_def)

section \<open>Properties of the WAV encoders\<close>

lemma length_le16 [simp]: "length (le16 v) = 2" by (simp add: le16_def)

lemma length_le32 [simp]: "length (le32 v) = 4" by (simp add: le32_def)

lemma length_ascii [simp]: "length (ascii s) = length s" by (simp add: ascii_def)

lemma js_truncate_of_nat [simp]: "js_truncate (of_nat n) = int n"
  by (simp add: js_truncate_def)

lemma update_splice:
  "off < length buf \<Longrightarrow> buf[off := a] = take off buf @ [a] @ drop (off + 1) buf"
  by (simp add: upd_conv_take_nth_drop)

lemma setUint8_splice:
  "off + 1 \<le> length buf \<Longrightarrow>
   setUint8 off v buf = Inr (take off buf @ [word_of_int (js_truncate v)] @ drop (off + 1) buf)"
  by (simp add: setUint8_def upd_conv_take_nth_drop)

lemma split_at:
  assumes "off + k \<le> length buf"
  obtains mid where "buf = take off buf @ mid @ drop (off + k) buf" and "length mid = k"
proof
  show "buf = take off buf @ take k (drop off buf) @ drop (off + k) buf"
    by (metis add.commute append_take_drop_id drop_drop)
  show "length (take k (drop off buf)) = k"
    using assms by simp
qed

lemma update_mid:
  "length pre = off \<Longrightarrow> i < length mid \<Longrightarrow>
   (pre @ mid @ rest)[off + i := a] = pre @ mid[i := a] @ rest"
  by (simp add: list_update_append)

lemma setUint16_splice:
  assumes "off + 2 \<le> length buf"
  shows "setUint16 off v buf = Inr (take off buf @ le16 v @ drop (off + 2) buf)"
proof -
  from assms obtain mid where buf: "buf = take off buf @ mid @ drop (off + 2) buf"
    and len: "length mid = 2"
    by (rule split_at)
  from len obtain x0 x1 where mid: "mid = [x0, x1]"
    by (cases mid; cases "tl mid") auto
  let ?pre = "take off buf" and ?rest = "drop (off + 2) buf"
  have pre: "length ?pre = off"
    using assms by simp
  have "(?pre @ mid @ ?rest)[off := a, off + 1 := b] = ?pre @ [a, b] @ ?rest" for a b
    using update_mid [OF pre, of 0 mid ?rest a] update_mid [OF pre, of 1 "mid[0 := a]" ?rest b]
    by (simp add: mid)
  with buf show ?thesis
    using assms by (simp add: setUint16_def le16_def)
qed

lemma setUint32_splice:
  assumes "off + 4 \<le> length buf"
  shows "setUint32 off v buf = Inr (take off buf @ le32 v @ drop (off + 4) buf)"
proof -
  from assms obtain mid where buf: "buf = take off buf @ mid @ drop (off + 4) buf"
    and len: "length mid = 4"
    by (rule split_at)
  from len obtain x0 x1 x2 x3 where mid: "mid = [x0, x1, x2, x3]"
    by (auto simp: length_Suc_conv numeral_eq_Suc)
  let ?pre = "take off buf" and ?rest = "drop (off + 4) buf"
  have pre: "length ?pre = off"
    using assms by simp
  have "(?pre @ mid @ ?rest)[off := a, off + 1 := b, off + 2 := c, off + 3 := d] =
      ?pre @ [a, b, c, d] @ ?rest" for a b c d
    using update_mid [OF pre, of 0 mid ?rest a]
      update_mid [OF pre, of 1 "mid[0 := a]" ?rest b]
      update_mid [OF pre, of 2 "mid[0 := a, 1 := b]" ?rest c]
      update_mid [OF pre, of 3 "mid[0 := a, 1 := b, 2 := c]" ?rest d]
    by (simp add: mid)
  with buf show ?thesis
    using assms by (simp add: setUint32_def le32_def)
qed

lemma and_then_Inr [simp]: "and_then (Inr x) f = f x"
  by (simp add: and_then_def)

lemma and_then_Inl [simp]: "and_then (Inl e) f = Inl e"
  by (simp add: and_then_def)

lemma writeString_splice:
  "off + length s \<le> length buf \<Longrightarrow>
   writeString off s buf = Inr (take off buf @ ascii s @ drop (off + length s) buf)"
proof (induction s arbitrary: off buf)
  case Nil
  then show ?case by (simp add: ascii_def)
next
  case (Cons c cs)
  let ?b = "word_of_int (js_truncate (of_nat (of_char c))) :: byte"
  let ?buf = "take off buf @ [?b] @ drop (off + 1) buf"
  from Cons.prems have step: "setUint8 off (of_nat (of_char c)) buf = Inr ?buf"
    by (simp add: setUint8_splice)
  from Cons.prems have len: "off + 1 + length cs \<le> length ?buf"
    by simp
  from Cons.prems have "take (off + 1) ?buf = take off buf @ [?b]"
    and "drop (off + 1 + length cs) ?buf = drop (off + 1 + length cs) buf"
    by (simp_all add: add.commute)
  with Cons.IH [OF len] step show ?case
    by (simp add: ascii_def add.commute)
qed

lemma length_header_bytes [simp]: "length (header_bytes f c sr ba bd dl) = 44"
  by (simp add: header_bytes_def)

lemma write_header_splice:
  assumes "44 \<le> length buf"
  shows "write_header f c sr ba bd dl buf = Inr (header_bytes f c sr ba bd dl @ drop 44 buf)"
  using assms
  by (simp add: write_header_def header_bytes_def writeString_splice setUint32_splice
      setUint16_splice del: writeString.simps)

lemma length_int16_bytes [simp]: "length (int16_bytes x) = 2" by (simp add: int16_bytes_def)

lemma length_int24_bytes [simp]: "length (int24_bytes x) = 3" by (simp add: int24_bytes_def Let_def)

lemma length_float32_bytes [simp]: "length (float32_bytes E x) = 4" by (simp add: float32_bytes_def)

lemma js_truncate_of_int [simp]: "js_truncate (of_int i) = i"
  by (simp add: js_truncate_def)

lemma byte_of_masked [simp]: "(word_of_int (i AND 255) :: byte) = word_of_int i"
proof -
  have "i AND 255 = take_bit 8 i"
    by (simp add: take_bit_eq_mask mask_eq_exp_minus_1)
  then show ?thesis
    by (simp add: word_of_int_eq_iff)
qed

lemma splice_step:
  assumes "index + k \<le> length buf" and "length bs = k"
  shows "take (index + k) (take index buf @ bs @ drop (index + k) buf) = take index buf @ bs"
    and "drop (index + k + m) (take index buf @ bs @ drop (index + k) buf) = drop (index + k + m) buf"
    and "length (take index buf @ bs @ drop (index + k) buf) = length buf"
proof -
  have pre: "length (take index buf) = index"
    using assms(1) by simp
  have "take (index + k) ((take index buf @ bs) @ drop (index + k) buf) = take index buf @ bs"
    using pre assms(2) by (subst take_append) simp
  then show "take (index + k) (take index buf @ bs @ drop (index + k) buf) = take index buf @ bs"
    by simp
  have "drop (index + k + m) ((take index buf @ bs) @ drop (index + k) buf) =
      drop m (drop (index + k) buf)"
    using pre assms(2) by (subst drop_append) simp
  then show "drop (index + k + m) (take index buf @ bs @ drop (index + k) buf) =
      drop (index + k + m) buf"
    by (simp add: add.commute)
  show "length (take index buf @ bs @ drop (index + k) buf) = length buf"
    using assms by simp
qed

lemma setFloat32_splice:
  assumes "off + 4 \<le> length buf"
  shows "setFloat32 E off w buf = Inr (take off buf @ float32_bytes E w @ drop (off + 4) buf)"
proof -
  from assms obtain mid where buf: "buf = take off buf @ mid @ drop (off + 4) buf"
    and len: "length mid = 4"
    by (rule split_at)
  from len obtain x0 x1 x2 x3 where mid: "mid = [x0, x1, x2, x3]"
    by (auto simp: length_Suc_conv numeral_eq_Suc)
  let ?pre = "take off buf" and ?rest = "drop (off + 4) buf"
  have pre: "length ?pre = off"
    using assms by simp
  have "(?pre @ mid @ ?rest)[off := a, off + 1 := b, off + 2 := c, off + 3 := d] =
      ?pre @ [a, b, c, d] @ ?rest" for a b c d
    using update_mid [OF pre, of 0 mid ?rest a]
      update_mid [OF pre, of 1 "mid[0 := a]" ?rest b]
      update_mid [OF pre, of 2 "mid[0 := a, 1 := b]" ?rest c]
      update_mid [OF pre, of 3 "mid[0 := a, 1 := b, 2 := c]" ?rest d]
    by (simp add: mid)
  with buf show ?thesis
    using assms by (simp add: setFloat32_def float32_bytes_def)
qed

lemma write_int16_splice:
  "index + 2 * length xs \<le> length buf \<Longrightarrow>
   write_int16 xs index buf =
     Inr (take index buf @ concat (map int16_bytes xs) @ drop (index + 2 * length xs) buf)"
proof (induction xs arbitrary: index buf)
  case Nil
  then show ?case by simp
next
  case (Cons x xs)
  let ?buf = "take index buf @ int16_bytes x @ drop (index + 2) buf"
  from Cons.prems have fits: "index + 2 \<le> length buf"
    by simp
  note st = splice_step [OF fits length_int16_bytes [of x]]
  from Cons.prems have len: "index + 2 + 2 * length xs \<le> length ?buf"
    by (simp only: st(3)) simp
  from fits have "write_int16 (x # xs) index buf = write_int16 xs (index + 2) ?buf"
    by (simp add: setInt16_def setUint16_splice int16_bytes_def)
  also have "\<dots> = Inr (take (index + 2) ?buf @ concat (map int16_bytes xs)
      @ drop (index + 2 + 2 * length xs) ?buf)"
    by (rule Cons.IH [OF len])
  also have "\<dots> = Inr ((take index buf @ int16_bytes x) @ concat (map int16_bytes xs)
      @ drop (index + 2 + 2 * length xs) buf)"
    by (simp only: st)
  also have "\<dots> = Inr (take index buf @ concat (map int16_bytes (x # xs))
      @ drop (index + 2 * length (x # xs)) buf)"
    by (simp add: add.assoc)
  finally show ?case .
qed

lemma write_int16_overflow:
  "xs \<noteq> [] \<Longrightarrow> length buf < index + 2 * length xs \<Longrightarrow>
   write_int16 xs index buf = Inl out_of_bounds"
proof (induction xs arbitrary: index buf)
  case Nil
  then show ?case by simp
next
  case (Cons x xs)
  show ?case
  proof (cases "index + 2 \<le> length buf")
    case False
    then show ?thesis
      by (simp add: setInt16_def setUint16_def)
  next
    case True
    let ?buf = "take index buf @ int16_bytes x @ drop (index + 2) buf"
    note st = splice_step [OF True length_int16_bytes [of x]]
    from True have step: "write_int16 (x # xs) index buf = write_int16 xs (index + 2) ?buf"
      by (simp add: setInt16_def setUint16_splice int16_bytes_def)
    from True Cons.prems have "xs \<noteq> []"
      by auto
    moreover from Cons.prems have "length ?buf < index + 2 + 2 * length xs"
      by (simp only: st(3)) simp
    ultimately have "write_int16 xs (index + 2) ?buf = Inl out_of_bounds"
      by (rule Cons.IH)
    with step show ?thesis
      by simp
  qed
qed

lemma write_float32_splice:
  "index + 4 * length xs \<le> length buf \<Longrightarrow>
   write_float32 E xs index buf =
     Inr (take index buf @ concat (map (float32_bytes E) xs) @ drop (index + 4 * length xs) buf)"
proof (induction xs arbitrary: index buf)
  case Nil
  then show ?case by simp
next
  case (Cons x xs)
  let ?buf = "take index buf @ float32_bytes E x @ drop (index + 4) buf"
  from Cons.prems have fits: "index + 4 \<le> length buf"
    by simp
  note st = splice_step [OF fits length_float32_bytes [of E x]]
  from Cons.prems have len: "index + 4 + 4 * length xs \<le> length ?buf"
    by (simp only: st(3)) simp
  from fits have "write_float32 E (x # xs) index buf = write_float32 E xs (index + 4) ?buf"
    by (simp add: setFloat32_splice)
  also have "\<dots> = Inr (take (index + 4) ?buf @ concat (map (float32_bytes E) xs)
      @ drop (index + 4 + 4 * length xs) ?buf)"
    by (rule Cons.IH [OF len])
  also have "\<dots> = Inr ((take index buf @ float32_bytes E x) @ concat (map (float32_bytes E) xs)
      @ drop (index + 4 + 4 * length xs) buf)"
    by (simp only: st)
  also have "\<dots> = Inr (take index buf @ concat (map (float32_bytes E) (x # xs))
      @ drop (index + 4 * length (x # xs)) buf)"
    by (simp add: add.assoc)
  finally show ?case .
qed

lemma three_bytes_splice:
  assumes "index + 3 \<le> length buf"
  shows "and_then (setInt8 index a buf) (\<lambda>b.
         and_then (setInt8 (index + 1) a1 b) (\<lambda>b.
         and_then (setInt8 (index + 2) a2 b) f)) =
       f (take index buf @ [word_of_int (js_truncate a), word_of_int (js_truncate a1),
            word_of_int (js_truncate a2)] @ drop (index + 3) buf)"
proof -
  from assms obtain mid where buf: "buf = take index buf @ mid @ drop (index + 3) buf"
    and len: "length mid = 3"
    by (rule split_at)
  from len obtain x0 x1 x2 where mid: "mid = [x0, x1, x2]"
    by (auto simp: length_Suc_conv numeral_eq_Suc)
  let ?pre = "take index buf" and ?rest = "drop (index + 3) buf"
  have pre: "length ?pre = index"
    using assms by simp
  have upd: "(?pre @ mid @ ?rest)[index := p, index + 1 := q, index + 2 := r] =
      ?pre @ [p, q, r] @ ?rest" for p q r
    using update_mid [OF pre, of 0 mid ?rest p]
      update_mid [OF pre, of 1 "mid[0 := p]" ?rest q]
      update_mid [OF pre, of 2 "mid[0 := p, 1 := q]" ?rest r]
    by (simp add: mid)
  have "and_then (setInt8 index a buf) (\<lambda>b.
         and_then (setInt8 (index + 1) a1 b) (\<lambda>b.
         and_then (setInt8 (index + 2) a2 b) f)) =
       f (buf[index := word_of_int (js_truncate a), index + 1 := word_of_int (js_truncate a1),
              index + 2 := word_of_int (js_truncate a2)])"
    using assms by (simp add: setInt8_def setUint8_def)
  also have "buf[index := word_of_int (js_truncate a), index + 1 := word_of_int (js_truncate a1),
              index + 2 := word_of_int (js_truncate a2)] =
      ?pre @ [word_of_int (js_truncate a), word_of_int (js_truncate a1),
            word_of_int (js_truncate a2)] @ ?rest"
    using upd buf by metis
  finally show ?thesis .
qed

lemma write_int24_splice:
  "index + 3 * length xs \<le> length buf \<Longrightarrow>
   write_int24 xs index buf =
     Inr (take index buf @ concat (map int24_bytes xs) @ drop (index + 3 * length xs) buf)"
proof (induction xs arbitrary: index buf)
  case Nil
  then show ?case by simp
next
  case (Cons x xs)
  let ?buf = "take index buf @ int24_bytes x @ drop (index + 3) buf"
  from Cons.prems have fits: "index + 3 \<le> length buf"
    by simp
  note st = splice_step [OF fits length_int24_bytes [of x]]
  from Cons.prems have len: "index + 3 + 3 * length xs \<le> length ?buf"
    by (simp only: st(3)) simp
  have "write_int24 (x # xs) index buf =
      write_int24 xs (index + 3)
        (take index buf @
         [word_of_int (js_truncate (of_int (pcm_int 8388608 x AND 255))),
          word_of_int (js_truncate (of_int (drop_bit 8 (pcm_int 8388608 x) AND 255))),
          word_of_int (js_truncate (of_int (drop_bit 16 (pcm_int 8388608 x) AND 255)))]
         @ drop (index + 3) buf)"
    unfolding write_int24.simps Let_def by (rule three_bytes_splice [OF fits])
  also have "\<dots> = write_int24 xs (index + 3) ?buf"
    by (simp add: int24_bytes_def drop_bit_eq_div Let_def)
  also have "\<dots> = Inr (take (index + 3) ?buf @ concat (map int24_bytes xs)
      @ drop (index + 3 + 3 * length xs) ?buf)"
    by (rule Cons.IH [OF len])
  also have "\<dots> = Inr ((take index buf @ int24_bytes x) @ concat (map int24_bytes xs)
      @ drop (index + 3 + 3 * length xs) buf)"
    by (simp only: st)
  also have "\<dots> = Inr (take index buf @ concat (map int24_bytes (x # xs))
      @ drop (index + 3 * length (x # xs)) buf)"
    by (simp add: add.assoc)
  finally show ?case .
qed

lemma new_ArrayBuffer_of_nat:
  "n \<le> MAX_SAFE_INTEGER \<Longrightarrow>
   new_ArrayBuffer E (of_nat n) =
     (if can_allocate E n then Inr (replicate n 0) else Inl allocation_failed)"
  by (simp add: new_ArrayBuffer_def)

lemma write_header_fresh:
  "write_header f c sr ba bd dl (replicate (44 + n) 0) =
     Inr (header_bytes f c sr ba bd dl @ replicate n 0)"
  by (simp add: write_header_splice)

text \<open>
  \<open>pcmToWav\<close> at a bit depth of \<open>8 * k\<close>, at least 16: the header for that depth, the
  samples as 16-bit integers, and the rest of the data section left zero.
\<close>

lemma pcmToWav_multiple_of_eight:
  assumes "2 \<le> k" and "44 + length xs * k \<le> MAX_SAFE_INTEGER"
  shows "pcmToWav E xs sr ch (8 * k) =
     (if can_allocate E (44 + length xs * k) then
        Inr (header_bytes 1 (of_nat ch) (of_nat sr) (of_nat (ch * k)) (of_nat (8 * k))
               (of_nat (length xs * k))
             @ concat (map int16_bytes xs) @ replicate (length xs * k - 2 * length xs) 0)
      else Inl allocation_failed)"
proof -
  let ?n = "length xs"
  let ?hdr = "header_bytes 1 (of_nat ch) (of_nat sr) (of_nat (ch * k)) (of_nat (8 * k))
      (of_nat (?n * k))"
  have buf: "new_ArrayBuffer E (44 + of_nat ?n * (of_nat (8 * k) / 8)) =
      (if can_allocate E (44 + ?n * k) then Inr (replicate (44 + ?n * k) 0)
       else Inl allocation_failed)"
    using new_ArrayBuffer_of_nat [OF assms(2), of E] by simp
  have hdr: "write_header 1 (of_nat ch) (of_nat sr) (of_nat ch * (of_nat (8 * k) / 8))
      (of_nat (8 * k)) (of_nat ?n * (of_nat (8 * k) / 8)) (replicate (44 + ?n * k) 0) =
      Inr (?hdr @ replicate (?n * k) 0)"
    using write_header_fresh [of 1 "of_nat ch" "of_nat sr" "of_nat (ch * k)" "of_nat (8 * k)"
        "of_nat (?n * k)" "?n * k"]
    by simp
  from assms(1) have "2 * ?n \<le> ?n * k"
    by simp
  then have fits: "44 + 2 * ?n \<le> length (?hdr @ replicate (?n * k) 0)"
    by simp
  have "write_int16 xs 44 (?hdr @ replicate (?n * k) 0) =
      Inr (take 44 (?hdr @ replicate (?n * k) 0) @ concat (map int16_bytes xs)
           @ drop (44 + 2 * ?n) (?hdr @ replicate (?n * k) 0))"
    by (rule write_int16_splice [OF fits])
  also have "\<dots> = Inr (?hdr @ concat (map int16_bytes xs) @ replicate (?n * k - 2 * ?n) 0)"
    by simp
  finally have fill: "write_int16 xs 44 (?hdr @ replicate (?n * k) 0) =
      Inr (?hdr @ concat (map int16_bytes xs) @ replicate (?n * k - 2 * ?n) 0)" .
  show ?thesis
  proof (cases "can_allocate E (44 + ?n * k)")
    case True
    show ?thesis
      unfolding pcmToWav_def Let_def buf
      by (simp only: True if_True and_then_Inr hdr fill)
  next
    case False
    show ?thesis
      unfolding pcmToWav_def Let_def buf
      by (simp only: False if_False and_then_Inl)
  qed
qed

text \<open>Below 16 bits the first sample that does not fit the data section throws.\<close>

lemma pcmToWav_too_narrow:
  assumes "xs \<noteq> []" and "bitDepth < 16"
    and "44 + (length xs * bitDepth) div 8 \<le> MAX_SAFE_INTEGER"
    and "can_allocate E (44 + (length xs * bitDepth) div 8)"
  shows "pcmToWav E xs sr ch bitDepth = Inl out_of_bounds"
proof -
  let ?n = "length xs"
  let ?m = "(?n * bitDepth) div 8"
  have fl: "\<lfloor>(of_nat m :: rat) / 8\<rfloor> = int (m div 8)" for m
    using floor_divide_of_nat_eq [of m 8, where ?'a = rat] by simp
  have "44 + of_nat ?n * (of_nat bitDepth / 8) = (44 + of_nat (?n * bitDepth) / 8 :: rat)"
    by simp
  moreover have "\<lfloor>44 + (of_nat (?n * bitDepth) :: rat) / 8\<rfloor> = 44 + int ?m"
    using fl [of "?n * bitDepth"] by (simp del: of_nat_mult)
  moreover have "(0 :: rat) \<le> 44 + of_nat (?n * bitDepth) / 8"
    by simp
  ultimately have trunc: "js_truncate (44 + of_nat ?n * (of_nat bitDepth / 8)) = int (44 + ?m)"
    by (simp add: js_truncate_def del: of_nat_mult)
  have buf: "new_ArrayBuffer E (44 + of_nat ?n * (of_nat bitDepth / 8)) =
      Inr (replicate (44 + ?m) 0)"
    unfolding new_ArrayBuffer_def trunc nat_int using assms(3,4) by simp
  from assms have "?n * bitDepth < 2 * ?n * 8"
    by simp
  then have small: "?m < 2 * ?n"
    by (simp only: div_less_iff_less_mult [OF zero_less_numeral])
  have "write_int16 xs 44 (header_bytes f c s b d l @ replicate ?m 0) = Inl out_of_bounds" for f c s b d l
    using assms(1) small by (intro write_int16_overflow) simp_all
  then show ?thesis
    unfolding pcmToWav_def Let_def buf by (simp add: write_header_fresh)
qed

lemma length_interleave: "length (interleave a) = numberOfChannels a * frames a"
  by (simp add: interleave_def numberOfChannels_def length_concat comp_def sum_list_triv)

lemma fill_data_section:
  assumes writer: "\<And>buf. 44 + k * length dat \<le> length buf \<Longrightarrow>
      W dat 44 buf = Inr (take 44 buf @ concat (map enc dat) @ drop (44 + k * length dat) buf)"
  shows "and_then (write_header f c sr ba bd dl (replicate (44 + k * length dat) 0)) (W dat 44) =
     Inr (header_bytes f c sr ba bd dl @ concat (map enc dat))"
proof -
  let ?buf = "header_bytes f c sr ba bd dl @ replicate (k * length dat) 0"
  have "44 + k * length dat \<le> length ?buf"
    by simp
  then have "W dat 44 ?buf =
      Inr (take 44 ?buf @ concat (map enc dat) @ drop (44 + k * length dat) ?buf)"
    by (rule writer)
  then show ?thesis
    by (simp add: write_header_fresh)
qed

lemma new_Float32Array_allocated:
  "4 * n \<le> MAX_SAFE_INTEGER \<Longrightarrow>
   new_Float32Array E n =
     (if can_allocate E (4 * n) then Inr (replicate n 0) else Inl allocation_failed)"
  by (simp add: new_Float32Array_def)

text \<open>
  \<open>bufferToWave\<close>: the header for the bit depth it works with and every interleaved
  sample in the bytes of that depth, when both its arrays are allocated.
\<close>

lemma bufferToWave_bytes:
  assumes "4 * length (interleave a) \<le> MAX_SAFE_INTEGER"
    and "44 + length (interleave a) * (effective_bitDepth requested div 8) \<le> MAX_SAFE_INTEGER"
  shows "bufferToWave E a requested =
     (if can_allocate E (4 * length (interleave a)) then
        (if can_allocate E (44 + length (interleave a) * (effective_bitDepth requested div 8)) then
           Inr (header_bytes (if requested = 32 then 3 else 1) (of_nat (numberOfChannels a))
                  (of_nat (buffer_sampleRate a))
                  (of_nat (numberOfChannels a * (effective_bitDepth requested div 8)))
                  (of_nat (effective_bitDepth requested))
                  (of_nat (length (interleave a) * (effective_bitDepth requested div 8)))
                @ concat (map (sample_bytes E (effective_bitDepth requested)) (interleave a)))
         else Inl allocation_failed)
      else Inl allocation_failed)"
proof -
  let ?dat = "interleave a"
  have n: "numberOfChannels a * frames a = length ?dat"
    by (simp add: length_interleave)
  note four = assms(1)
  have arr: "new_Float32Array E (numberOfChannels a * frames a) =
      (if can_allocate E (4 * length ?dat) then Inr (replicate (length ?dat) 0)
       else Inl allocation_failed)"
    unfolding n by (rule new_Float32Array_allocated [OF four])
  have alloc: "new_ArrayBuffer E (of_nat (44 + k * length ?dat)) =
      (if can_allocate E (44 + k * length ?dat) then Inr (replicate (44 + k * length ?dat) 0)
       else Inl allocation_failed)" if "effective_bitDepth requested div 8 = k" for k
  proof (rule new_ArrayBuffer_of_nat)
    from assms(2) that show "44 + k * length ?dat \<le> MAX_SAFE_INTEGER"
      by (simp add: mult.commute)
  qed
  consider (b16) "effective_bitDepth requested = 16" | (b24) "requested = 24" | (b32) "requested = 32"
    by (cases "requested = 24"; cases "requested = 32") (auto simp: effective_bitDepth_def)
  then show ?thesis
  proof cases
    case b16
    then have eff: "(if requested \<in> set [16, 24, 32] then requested else 16) = 16"
      by (simp add: effective_bitDepth_def)
    have "requested \<noteq> 32"
      using b16 by (auto simp: effective_bitDepth_def)
    moreover have "new_ArrayBuffer E (44 + of_nat (length ?dat) * (of_nat 16 / 8)) =
        (if can_allocate E (44 + 2 * length ?dat) then Inr (replicate (44 + 2 * length ?dat) 0)
         else Inl allocation_failed)"
      using alloc [of 2] b16 by (simp add: mult.commute)
    ultimately show ?thesis
      unfolding bufferToWave_def Let_def eff b16 arr
      using fill_data_section [of 2 ?dat write_int16 int16_bytes, OF write_int16_splice]
      by (simp add: sample_bytes_def mult.commute)
  next
    case b24
    then have eff: "effective_bitDepth requested = 24"
      by (simp add: effective_bitDepth_def)
    have "new_ArrayBuffer E (44 + of_nat (length ?dat) * (of_nat 24 / 8)) =
        (if can_allocate E (44 + 3 * length ?dat) then Inr (replicate (44 + 3 * length ?dat) 0)
         else Inl allocation_failed)"
      using alloc [of 3] eff by (simp add: mult.commute)
    then show ?thesis
      unfolding bufferToWave_def Let_def eff b24 arr
      using fill_data_section [of 3 ?dat write_int24 int24_bytes, OF write_int24_splice]
      by (simp add: sample_bytes_def mult.commute effective_bitDepth_def)
  next
    case b32
    then have eff: "effective_bitDepth requested = 32"
      by (simp add: effective_bitDepth_def)
    have "new_ArrayBuffer E (44 + of_nat (length ?dat) * (of_nat 32 / 8)) =
        (if can_allocate E (44 + 4 * length ?dat) then Inr (replicate (44 + 4 * length ?dat) 0)
         else Inl allocation_failed)"
      using alloc [of 4] eff by (simp add: mult.commute)
    then show ?thesis
      unfolding bufferToWave_def Let_def eff b32 arr
      using fill_data_section [of 4 ?dat "write_float32 E" "float32_bytes E", OF write_float32_splice]
      by (simp add: sample_bytes_def mult.commute effective_bitDepth_def)
  qed
qed

lemma byte_of_nat_div: "(word_of_int (int v div 2 ^ n) :: byte) = of_nat (v div 2 ^ n)"
proof -
  have "int v div 2 ^ n = int (v div 2 ^ n)"
    by (simp add: zdiv_int)
  then show ?thesis
    by (simp only: of_int_of_nat_eq)
qed

lemma le_nat_le16: "le_nat (le16 (of_nat v)) = v mod 2 ^ 16"
proof -
  have "v mod (256 * 256) = 256 * (v div 256 mod 256) + v mod 256"
    by (rule mod_mult2_eq)
  then show ?thesis
    using byte_of_nat_div [of v 8]
    by (simp add: le_nat_def le16_def unat_of_nat)
qed

lemma le_nat_le32: "le_nat (le32 (of_nat v)) = v mod 2 ^ 32"
proof -
  have d2: "v div 256 div 256 = v div 65536" and d3: "v div 65536 div 256 = v div 16777216"
    by (simp_all flip: div_mult2_eq)
  have "v mod 4294967296 = 256 * (v div 256 mod 16777216) + v mod 256"
    using mod_mult2_eq [of v 256 16777216] by simp
  also have "v div 256 mod 16777216 = 256 * (v div 65536 mod 65536) + v div 256 mod 256"
    using mod_mult2_eq [of "v div 256" 256 65536] by (simp add: d2)
  also have "v div 65536 mod 65536 = 256 * (v div 16777216 mod 256) + v div 65536 mod 256"
    using mod_mult2_eq [of "v div 65536" 256 256] by (simp add: d3)
  finally have "v mod 4294967296 =
      256 * (256 * (256 * (v div 16777216 mod 256) + v div 65536 mod 256) + v div 256 mod 256)
      + v mod 256" .
  then show ?thesis
    using byte_of_nat_div [of v 8] byte_of_nat_div [of v 16] byte_of_nat_div [of v 24]
    by (simp add: le_nat_def le32_def unat_of_nat)
qed

lemma riff_header_bytes:
  "riff_header
     (header_bytes f (of_nat ch) (of_nat sr) (of_nat (ch * k)) (of_nat (8 * k)) (of_nat dl) @ rest)
     ch sr k dl"
proof -
  have e1: "le_nat (le32 (36 + of_nat dl)) = (36 + dl) mod 2 ^ 32"
    using le_nat_le32 [of "36 + dl"] by simp
  have e2: "le_nat (le32 (of_nat sr * of_nat (ch * k))) = (sr * (ch * k)) mod 2 ^ 32"
    using le_nat_le32 [of "sr * (ch * k)"] by simp
  have e3: "le_nat (le32 16) = 16"
    using le_nat_le32 [of 16] by simp
  show ?thesis
    unfolding riff_header_def field_def header_bytes_def
    by (simp add: e1 e2 e3 le_nat_le16 le_nat_le32 del: of_nat_mult of_nat_add)
qed

lemma interleave_mono: "interleave (mono_buffer xs) = xs"
proof -
  have "map (\<lambda>i. [if i < length xs then xs ! i else 0x7FC00000]) [0..<length xs] = map (\<lambda>i. [xs ! i]) [0..<length xs]"
    by simp
  then have "interleave (mono_buffer xs) = concat (map (\<lambda>i. [xs ! i]) [0..<length xs])"
    by (simp add: interleave_def mono_buffer_def)
  also have "\<dots> = map (\<lambda>i. xs ! i) [0..<length xs]"
    by simp
  also have "\<dots> = xs"
    by (rule map_nth)
  finally show ?thesis .
qed

lemma f32_one: "f32_value 0x3F800000 = Fin 1"
  and f32_minus_one: "f32_value 0xBF800000 = Fin (- 1)"
  and f32_zero: "f32_value 0 = Fin 0"
  by (simp_all add: f32_value_def)

lemma int16_examples:
  "int16_bytes 0x3F800000 = [255, 127]" "int16_bytes 0xBF800000 = [0, 128]" "int16_bytes 0 = [0, 0]"
  by (simp_all add: int16_bytes_def pcm_int_def f32_one f32_minus_one f32_zero le16_def js_truncate_def)

lemma int24_examples:
  "int24_bytes 0x3F800000 = [255, 255, 127]" "int24_bytes 0xBF800000 = [0, 0, 128]"
  by (simp_all add: int24_bytes_def pcm_int_def f32_one f32_minus_one js_truncate_def)

lemma demo_js_engine_allocates: "n \<le> 2147483647 \<Longrightarrow> can_allocate demo_js_engine n"
  by (simp add: demo_js_engine_def)

lemma small_is_safe: "n \<le> 2147483647 \<Longrightarrow> n \<le> MAX_SAFE_INTEGER"
  by (simp add: MAX_SAFE_INTEGER_def)

text \<open>
  The claim as stated, for every bit depth, fails: at 8 bits \<open>pcmToWav\<close> throws a
  RangeError on its first sample, \<open>bufferToWave\<close> falls back to 16 bits (46 bytes for one
  sample, and 16 at offset 34); a channel count of 65536 leaves 0 at offset 22; and at a
  bit depth of \<open>2^34\<close> the buffer for one sample is 2 GiB and 44 bytes long, which this
  engine does not allocate.
\<close>

theorem wav_header_counterexample:
  "pcmToWav demo_js_engine [0] 22050 1 8 = Inl out_of_bounds
   \<and> bufferToWave demo_js_engine (mono_buffer [0]) 8 =
       Inr (header_bytes 1 1 48000 2 16 2 @ [0, 0])
   \<and> length (header_bytes 1 1 48000 2 16 2 @ [0, 0 :: byte]) = 46
   \<and> field 34 2 (header_bytes 1 1 48000 2 16 2 @ [0, 0]) = 16
   \<and> pcmToWav demo_js_engine [] 22050 65536 16 = Inr (header_bytes 1 65536 22050 131072 16 0)
   \<and> field 22 2 (header_bytes 1 65536 22050 131072 16 0) = 0
   \<and> pcmToWav demo_js_engine [0] 22050 1 17179869184 = Inl allocation_failed"
proof -
  have a: "pcmToWav demo_js_engine [0] 22050 1 8 = Inl out_of_bounds"
    by (rule pcmToWav_too_narrow) (simp_all add: small_is_safe demo_js_engine_allocates)
  have "effective_bitDepth 8 = 16"
    by (simp add: effective_bitDepth_def)
  then have b: "bufferToWave demo_js_engine (mono_buffer [0]) 8 =
      Inr (header_bytes 1 1 48000 2 16 2 @ [0, 0])"
    using bufferToWave_bytes [of "mono_buffer [0]" 8 demo_js_engine]
    by (simp add: interleave_mono small_is_safe demo_js_engine_allocates sample_bytes_def
        int16_examples) (simp add: mono_buffer_def numberOfChannels_def)
  have c: "field 34 2 (header_bytes 1 1 48000 2 16 2 @ [0, 0]) = 16"
    using riff_header_bytes [of 1 1 48000 2 2 "[0, 0]"] by (simp add: riff_header_def)
  have d: "pcmToWav demo_js_engine [] 22050 65536 16 =
      Inr (header_bytes 1 65536 22050 131072 16 0)"
    using pcmToWav_multiple_of_eight [of 2 "[]" demo_js_engine 22050 65536]
    by (simp add: small_is_safe demo_js_engine_allocates)
  have e: "field 22 2 (header_bytes 1 65536 22050 131072 16 0) = 0"
    using riff_header_bytes [of 1 65536 22050 2 0 "[]"] by (simp add: riff_header_def)
  have f: "pcmToWav demo_js_engine [0] 22050 1 17179869184 = Inl allocation_failed"
    using pcmToWav_multiple_of_eight [of 2147483648 "[0]" demo_js_engine 22050 1]
    by (simp add: MAX_SAFE_INTEGER_def demo_js_engine_def)
  from a b c d e f show ?thesis
    by simp
qed

text \<open>
  C2. At 24 bits every sample is to fill three bytes of the data section. \<open>pcmToWav\<close>
  sizes the buffer and fills the header for 24 bits but writes each sample with
  \<open>setInt16\<close>, two bytes apart: for the samples 1.0 and -1.0 the six data bytes are
  \<open>FF 7F 00 80 00 00\<close>, where \<open>bufferToWave\<close> writes \<open>FF FF 7F 00 00 80\<close>. This is so
  on every engine that allocates the 50 bytes of the file (and, in \<open>bufferToWave\<close>, the 8
  bytes of the interleaved samples); on another the constructor throws.
\<close>

theorem pcmToWav_writes_16_bit_only:
  "pcmToWav E [0x3F800000, 0xBF800000] 22050 1 24 =
     (if can_allocate E 50
      then Inr (header_bytes 1 1 22050 3 24 6 @ [255, 127, 0, 128, 0, 0])
      else Inl allocation_failed)
   \<and> bufferToWave E (mono_buffer [0x3F800000, 0xBF800000]) 24 =
     (if can_allocate E 8 \<and> can_allocate E 50
      then Inr (header_bytes 1 1 48000 3 24 6 @ [255, 255, 127, 0, 0, 128])
      else Inl allocation_failed)"
proof -
  have safe: "(50 :: nat) \<le> MAX_SAFE_INTEGER" "(8 :: nat) \<le> MAX_SAFE_INTEGER"
    by (simp_all add: MAX_SAFE_INTEGER_def)
  have "pcmToWav E [0x3F800000, 0xBF800000] 22050 1 24 =
     (if can_allocate E 50
      then Inr (header_bytes 1 1 22050 3 24 6 @ [255, 127, 0, 128, 0, 0])
      else Inl allocation_failed)"
    using pcmToWav_multiple_of_eight [of 3 "[0x3F800000, 0xBF800000]" E 22050 1] safe
    by (simp add: int16_examples numeral_eq_Suc)
  moreover have "effective_bitDepth 24 = 24"
    by (simp add: effective_bitDepth_def)
  then have "bufferToWave E (mono_buffer [0x3F800000, 0xBF800000]) 24 =
     (if can_allocate E 8 \<and> can_allocate E 50
      then Inr (header_bytes 1 1 48000 3 24 6 @ [255, 255, 127, 0, 0, 128])
      else Inl allocation_failed)"
    using bufferToWave_bytes [of "mono_buffer [0x3F800000, 0xBF800000]" 24 E] safe
    by (simp add: interleave_mono sample_bytes_def int24_examples)
      (simp add: mono_buffer_def numberOfChannels_def)
  ultimately show ?thesis
    by simp
qed

lemma effective_bitDepth_cases:
  "effective_bitDepth r = 16 \<or> effective_bitDepth r = 24 \<or> effective_bitDepth r = 32"
  by (auto simp: effective_bitDepth_def)

lemma length_sample_bytes:
  "length (sample_bytes E (effective_bitDepth r) x) = effective_bitDepth r div 8"
  using effective_bitDepth_cases [of r] by (auto simp: sample_bytes_def)

lemma length_data_section:
  "length (concat (map (sample_bytes E (effective_bitDepth r)) dat)) =
     length dat * (effective_bitDepth r div 8)"
  by (simp add: length_concat comp_def length_sample_bytes sum_list_triv mult.commute)

text \<open>
  C1, as the code has it. For every sample array, sample rate and channel count,
  \<open>pcmToWav\<close> at every bit depth that is a multiple of 8 and at least 16, and
  \<open>bufferToWave\<close> at every requested bit depth (it works with the requested depth when
  that is 16, 24 or 32 and with 16 otherwise), return a buffer of exactly 44 + dataLength
  bytes, dataLength being the number of samples times the bytes per sample, that starts
  with the RIFF header: \<open>RIFF\<close>, 36 + dataLength, \<open>WAVE\<close>, \<open>fmt \<close>, 16, the channel
  count at 22, the sample rate at 24, the byte rate at 28, the block align at 32, the bits
  per sample at 34, \<open>data\<close> and dataLength at 40, every number little-endian and reduced
  modulo the width of its field. This is so when the numbers of the header are computed
  without rounding (the sample rate, the channel count, the bit depth, the block align and
  the byte rate are at most \<open>Number.MAX_SAFE_INTEGER\<close>) and the engine allocates the
  buffer (and, in \<open>bufferToWave\<close>, the array of the interleaved samples).
\<close>

theorem wav_header_layout:
  "(2 \<le> k \<and> exact_arithmetic sampleRate channels k \<and> allocates E (44 + length xs * k) \<longrightarrow>
      (\<exists>buf. pcmToWav E xs sampleRate channels (8 * k) = Inr buf
         \<and> length buf = 44 + length xs * k
         \<and> riff_header buf channels sampleRate k (length xs * k)))
   \<and> (exact_arithmetic (buffer_sampleRate a) (numberOfChannels a)
         (effective_bitDepth requested div 8)
       \<and> allocates E (4 * (numberOfChannels a * frames a))
       \<and> allocates E (44 + numberOfChannels a * frames a * (effective_bitDepth requested div 8)) \<longrightarrow>
      (\<exists>buf. bufferToWave E a requested = Inr buf
         \<and> length buf = 44 + numberOfChannels a * frames a * (effective_bitDepth requested div 8)
         \<and> riff_header buf (numberOfChannels a) (buffer_sampleRate a)
             (effective_bitDepth requested div 8)
             (numberOfChannels a * frames a * (effective_bitDepth requested div 8))))"
proof (intro conjI impI)
  assume "2 \<le> k \<and> exact_arithmetic sampleRate channels k \<and> allocates E (44 + length xs * k)"
  then have k: "2 \<le> k" and safe: "44 + length xs * k \<le> MAX_SAFE_INTEGER"
    and alloc: "can_allocate E (44 + length xs * k)"
    by (simp_all add: allocates_def)
  let ?data = "concat (map int16_bytes xs) @ replicate (length xs * k - 2 * length xs) (0 :: byte)"
  let ?buf = "header_bytes 1 (of_nat channels) (of_nat sampleRate) (of_nat (channels * k))
      (of_nat (8 * k)) (of_nat (length xs * k)) @ ?data"
  from k have "2 * length xs \<le> length xs * k"
    by simp
  then have "length ?data = length xs * k"
    by (simp add: length_concat comp_def sum_list_triv)
  then have len: "length ?buf = 44 + length xs * k"
    by (simp only: length_append length_header_bytes)
  have "pcmToWav E xs sampleRate channels (8 * k) = Inr ?buf"
    by (simp only: pcmToWav_multiple_of_eight [OF k safe] alloc if_True)
  moreover have "riff_header ?buf channels sampleRate k (length xs * k)"
    by (rule riff_header_bytes)
  ultimately show "\<exists>buf. pcmToWav E xs sampleRate channels (8 * k) = Inr buf
         \<and> length buf = 44 + length xs * k
         \<and> riff_header buf channels sampleRate k (length xs * k)"
    using len by blast
next
  let ?b = "effective_bitDepth requested"
  let ?n = "numberOfChannels a * frames a"
  assume "exact_arithmetic (buffer_sampleRate a) (numberOfChannels a) (?b div 8)
      \<and> allocates E (4 * ?n) \<and> allocates E (44 + ?n * (?b div 8))"
  then have safe: "4 * length (interleave a) \<le> MAX_SAFE_INTEGER"
      "44 + length (interleave a) * (?b div 8) \<le> MAX_SAFE_INTEGER"
    and alloc: "can_allocate E (4 * ?n)" "can_allocate E (44 + ?n * (?b div 8))"
    by (simp_all add: allocates_def length_interleave)
  let ?data = "concat (map (sample_bytes E ?b) (interleave a))"
  let ?buf = "header_bytes (if requested = 32 then 3 else 1) (of_nat (numberOfChannels a))
      (of_nat (buffer_sampleRate a)) (of_nat (numberOfChannels a * (?b div 8)))
      (of_nat (8 * (?b div 8))) (of_nat (?n * (?b div 8))) @ ?data"
  have eight: "8 * (?b div 8) = ?b"
    using effective_bitDepth_cases [of requested] by auto
  have "length ?data = ?n * (?b div 8)"
    by (simp only: length_data_section length_interleave)
  then have len: "length ?buf = 44 + ?n * (?b div 8)"
    by (simp only: length_append length_header_bytes)
  have "bufferToWave E a requested = Inr ?buf"
    by (simp only: bufferToWave_bytes [OF safe] length_interleave alloc if_True eight)
  moreover have "riff_header ?buf (numberOfChannels a) (buffer_sampleRate a) (?b div 8)
      (?n * (?b div 8))"
    by (rule riff_header_bytes)
  ultimately show "\<exists>buf. bufferToWave E a requested = Inr buf
         \<and> length buf = 44 + ?n * (?b div 8)
         \<and> riff_header buf (numberOfChannels a) (buffer_sampleRate a) (?b div 8)
             (?n * (?b div 8))"
    using len by blast
qed

theorem wav_header_layout_witness:
  "(2 :: nat) \<le> 3 \<and> exact_arithmetic 22050 1 3 \<and> allocates demo_js_engine 50
   \<and> (\<exists>buf. pcmToWav demo_js_engine [0x3F800000, 0xBF800000] 22050 1 (8 * 3) = Inr buf
         \<and> length buf = 44 + length [0x3F800000, 0xBF800000 :: float32] * 3
         \<and> riff_header buf 1 22050 3 (length [0x3F800000, 0xBF800000 :: float32] * 3))
   \<and> exact_arithmetic 48000 1 2 \<and> allocates demo_js_engine 8 \<and> allocates demo_js_engine 48
   \<and> (\<exists>buf. bufferToWave demo_js_engine (mono_buffer [0x3F800000, 0xBF800000]) 7 = Inr buf
         \<and> length buf = 48
         \<and> riff_header buf 1 48000 2 4)"
proof -
  have "effective_bitDepth 7 = 16"
    by (simp add: effective_bitDepth_def)
  moreover have "exact_arithmetic 22050 1 3" "exact_arithmetic 48000 1 2"
    by (simp_all add: exact_arithmetic_def MAX_SAFE_INTEGER_def)
  moreover have "allocates demo_js_engine 50" "allocates demo_js_engine 8"
    "allocates demo_js_engine 48"
    by (simp_all add: allocates_def MAX_SAFE_INTEGER_def demo_js_engine_def)
  ultimately show ?thesis
    using wav_header_layout [of 3 22050 1 demo_js_engine "[0x3F800000, 0xBF800000]"
        "mono_buffer [0x3F800000, 0xBF800000]" 7]
    by (simp add: mono_buffer_def numberOfChannels_def)
qed

subsection \<open>The integer of a sample\<close>

text \<open>
  For a finite sample the integer written is the sample clamped to \<open>[-1, 1]\<close>, scaled by
  \<open>F\<close> when negative and by \<open>F - 1\<close> otherwise, and truncated toward zero; it lies
  between \<open>-F\<close> and \<open>F - 1\<close>, so that \<open>| 0\<close> changes nothing. At 16 bits the two
  bytes of \<open>bufferToWave\<close> and \<open>pcmToWav\<close> are that integer as a little-endian signed
  16-bit word.
\<close>

lemma to_int32_in_range:
  assumes "- (2 ^ 31) \<le> js_truncate y" and "js_truncate y < 2 ^ 31"
  shows "to_int32 (Fin y) = js_truncate y"
  using assms by (simp add: sint_sbintrunc' signed_take_bit_int_eq_self)

lemma pcm_int_finite:
  assumes "f32_value x = Fin v" and "1 \<le> F" and "F \<le> 2 ^ 31"
  shows "pcm_int (of_int F) x =
           js_truncate (let c = max (- 1) (min 1 v) in if c < 0 then c * of_int F else c * (of_int F - 1))"
    and "- F \<le> pcm_int (of_int F) x" and "pcm_int (of_int F) x \<le> F - 1"
proof -
  define c where "c = max (- 1) (min 1 v)"
  define y where "y = (if c < 0 then c * of_int F else c * (of_int F - 1))"
  have c: "- 1 \<le> c" "c \<le> 1"
    by (simp_all add: c_def)
  have "max_minus_one (min_one (f32_value x)) = Fin c"
    by (simp only: assms(1) min_one.simps max_minus_one.simps c_def)
  then have pcm: "pcm_int (of_int F) x = to_int32 (Fin y)"
    by (simp add: pcm_int_def y_def Let_def)
  have range: "- F \<le> js_truncate y \<and> js_truncate y \<le> F - 1"
  proof (cases "c < 0")
    case True
    then have y: "y = c * of_int F"
      by (simp add: y_def)
    from True assms(2) have "y < 0"
      by (simp add: y mult_neg_pos)
    moreover have "- of_int F \<le> y"
      using c(1) assms(2) mult_right_mono [of "- 1" c "of_int F :: rat"] by (simp add: y)
    ultimately have "js_truncate y = \<lceil>y\<rceil>" and "\<lceil>y\<rceil> \<le> 0" and "- F \<le> \<lceil>y\<rceil>"
      by (simp_all add: js_truncate_def ceiling_le_iff le_ceiling_iff)
    with assms(2) show ?thesis
      by (intro conjI) linarith+
  next
    case False
    then have y: "y = c * (of_int F - 1)"
      by (simp add: y_def)
    from False assms(2) have "0 \<le> y"
      by (simp add: y)
    moreover have le: "y \<le> of_int (F - 1)"
      using c(2) assms(2) mult_right_mono [of c 1 "of_int F - 1 :: rat"] by (simp add: y)
    moreover have "\<lfloor>y\<rfloor> \<le> \<lfloor>of_int (F - 1) :: rat\<rfloor>"
      using le by (rule floor_mono)
    ultimately have "js_truncate y = \<lfloor>y\<rfloor>" and "0 \<le> \<lfloor>y\<rfloor>" and "\<lfloor>y\<rfloor> \<le> F - 1"
      by (simp_all add: js_truncate_def)
    with assms(2) show ?thesis
      by (intro conjI) linarith+
  qed
  with assms(3) have "to_int32 (Fin y) = js_truncate y"
    by (intro to_int32_in_range) simp_all
  with pcm have eq: "pcm_int (of_int F) x = js_truncate y"
    by (simp only:)
  then show "pcm_int (of_int F) x =
      js_truncate (let c = max (- 1) (min 1 v) in if c < 0 then c * of_int F else c * (of_int F - 1))"
    unfolding y_def c_def Let_def .
  from eq range show "- F \<le> pcm_int (of_int F) x" and "pcm_int (of_int F) x \<le> F - 1"
    by (simp_all only:)
qed

lemma int16_bytes_signed:
  assumes "f32_value x = Fin v"
  defines "w \<equiv> word_of_int (pcm_int 32768 x) :: 16 word"
  shows "int16_bytes x = [ucast w, ucast (drop_bit 8 w)]" and "sint w = pcm_int 32768 x"
proof -
  have r: "- 32768 \<le> pcm_int 32768 x" "pcm_int 32768 x \<le> 32767"
    using pcm_int_finite(2,3) [OF assms(1), of 32768] by simp_all
  then show "sint w = pcm_int 32768 x"
    by (simp add: w_def sint_sbintrunc' signed_take_bit_int_eq_self)
  have "(ucast w :: byte) = word_of_int (pcm_int 32768 x)"
    by (rule bit_word_eqI) (auto simp: w_def bit_simps)
  moreover have "(ucast (drop_bit 8 w) :: byte) = word_of_int (drop_bit 8 (pcm_int 32768 x))"
    by (rule bit_word_eqI) (auto simp: w_def bit_simps)
  moreover have "drop_bit 8 (pcm_int 32768 x) = pcm_int 32768 x div 2 ^ 8"
    by (rule drop_bit_eq_div)
  ultimately show "int16_bytes x = [ucast w, ucast (drop_bit 8 w)]"
    by (simp add: int16_bytes_def le16_def)
qed

section \<open>Properties of the synthesis engines\<close>

lemma trim_empty_iff: "trim s = [] \<longleftrightarrow> list_all is_whitespace s"
proof -
  have "(\<forall>c \<in> set (dropWhile is_whitespace s). is_whitespace c) \<longleftrightarrow> dropWhile is_whitespace s = []"
  proof (cases "dropWhile is_whitespace s")
    case Nil
    show ?thesis unfolding Nil by simp
  next
    case (Cons c cs)
    then have "\<not> is_whitespace c"
      using hd_dropWhile [of is_whitespace s] by simp
    with Cons show ?thesis
      by auto
  qed
  then have "trim s = [] \<longleftrightarrow> dropWhile is_whitespace s = []"
    by (simp add: trim_def)
  then show ?thesis
    by (simp add: list_all_iff)
qed

lemma text_is_empty_iff:
  "text_is_empty tx \<longleftrightarrow> tx = None \<or> (\<exists>s. tx = Some s \<and> list_all is_whitespace s)"
  by (cases tx) (auto simp: text_is_empty_def trim_empty_iff)

text \<open>
  C5, as the code has it. For a text that is \<open>null\<close>, \<open>undefined\<close>, empty or made of
  white space only, each of the four functions throws before any synthesis is attempted
  and leaves its state as it was. \<open>VoiceForgeEngine.synthesizeToSpeech\<close> always throws
  \<open>Text cannot be empty\<close>; the other three test something else first, and throw
  \<open>Text cannot be empty\<close> when that test passes (the Piper engine is initialized, speech
  synthesis is supported, the integration is initialized) and that test's own error
  otherwise.
\<close>

theorem empty_text_is_rejected:
  assumes "tx = None \<or> tx = Some s \<and> list_all is_whitespace s"
  shows "PiperEngine_synthesizeToSpeech B pe tx options =
           (Inl (if isInitialized pe then Error ''Text cannot be empty'' else not_initialized), pe, [])
       \<and> AudioEngine_synthesizeToSpeech B tx options =
           (Inl (if speechSupported B then Error ''Text cannot be empty''
                 else Error ''Speech synthesis is not available in this browser/device.''), [])
       \<and> VoiceForgeEngine_synthesizeToSpeech B st tx options =
           (Inl (Error ''Text cannot be empty''), st, [])
       \<and> generateSpeech B background integ tx options =
           (Inl (if initialized integ then Error ''Text cannot be empty''
                 else Error ''TTS Engine not initialized. Call initialize() first.''), integ, [])"
proof -
  from assms have "text_is_empty tx"
    by (auto simp: text_is_empty_iff)
  then show ?thesis
    by (simp add: PiperEngine_synthesizeToSpeech_def AudioEngine_synthesizeToSpeech_def
        VoiceForgeEngine_synthesizeToSpeech_def generateSpeech_def text_empty_def)
qed

text \<open>
  C6, as the code has it. On an engine that holds a Piper instance: when the model of the
  voice is already cached, \<open>loadVoiceModel\<close> returns without fetching and without
  changing the state. Otherwise it throws when the voice is not in the discovered list,
  and for a listed voice it fetches both the model file and its \<open>.onnx.json\<close> config,
  throws when either response is not ok, and when both fetches succeed and their bodies
  are read sets \<open>selectedVoice\<close> to the voice and \<open>currentModelData\<close> to the fetched
  model and config. Whenever it throws the engine state is unchanged, and the state changes
  only when both fetches have succeeded.
\<close>

theorem loadVoiceModel_behaviour:
  assumes "piper pe \<noteq> None"
  shows
   "(model_cached pe voiceId \<longrightarrow>
       snd (loadVoiceModel B pe voiceId) = (pe, []) \<and> (\<exists>x. fst (loadVoiceModel B pe voiceId) = Inr x))
    \<and> (\<not> model_cached pe voiceId \<and> find (\<lambda>x. voice_id x = voiceId) (voices pe) = None \<longrightarrow>
       loadVoiceModel B pe voiceId = (Inl (Error (''Voice not found: '' @ voiceId)), pe, []))
    \<and> (\<not> model_cached pe voiceId \<and> find (\<lambda>x. voice_id x = voiceId) (voices pe) = Some v \<longrightarrow>
       snd (snd (loadVoiceModel B pe voiceId)) =
         [Fetched (path_string (modelPath v)), Fetched (path_string (modelPath v) @ ''.json'')]
       \<and> (fetch B (path_string (modelPath v)) = Inr modelResponse
            \<and> fetch B (path_string (modelPath v) @ ''.json'') = Inr configResponse
            \<and> (\<not> resp_ok modelResponse \<or> \<not> resp_ok configResponse) \<longrightarrow>
          (\<exists>e. fst (loadVoiceModel B pe voiceId) = Inl e))
       \<and> (fetch B (path_string (modelPath v)) = Inr modelResponse \<and> resp_ok modelResponse
            \<and> fetch B (path_string (modelPath v) @ ''.json'') = Inr configResponse
            \<and> resp_ok configResponse
            \<and> resp_arrayBuffer modelResponse = Inr modelData
            \<and> resp_json configResponse = Inr configData \<longrightarrow>
          loadVoiceModel B pe voiceId =
            (Inr v,
             pe\<lparr>selectedVoice := Some voiceId,
                currentModelData :=
                  Some \<lparr>md_voiceId = voiceId, md_modelData = modelData, md_configData = configData\<rparr>\<rparr>,
             [Fetched (path_string (modelPath v)), Fetched (path_string (modelPath v) @ ''.json'')])))
    \<and> (\<forall>e. fst (loadVoiceModel B pe voiceId) = Inl e \<longrightarrow> fst (snd (loadVoiceModel B pe voiceId)) = pe)
    \<and> (fst (snd (loadVoiceModel B pe voiceId)) \<noteq> pe \<longrightarrow>
         (\<exists>x mr cr. find (\<lambda>x. voice_id x = voiceId) (voices pe) = Some x
            \<and> fetch B (path_string (modelPath x)) = Inr mr \<and> resp_ok mr
            \<and> fetch B (path_string (modelPath x) @ ''.json'') = Inr cr \<and> resp_ok cr))"
proof -
  from assms obtain lib where lib: "piper pe = Some lib"
    by auto
  show ?thesis
  proof (intro conjI impI allI)
  assume "model_cached pe voiceId"
  with lib show "snd (loadVoiceModel B pe voiceId) = (pe, [])"
    and "\<exists>x. fst (loadVoiceModel B pe voiceId) = Inr x"
    by (simp_all add: loadVoiceModel_def)
next
  assume "\<not> model_cached pe voiceId \<and> find (\<lambda>x. voice_id x = voiceId) (voices pe) = None"
  with lib show "loadVoiceModel B pe voiceId = (Inl (Error (''Voice not found: '' @ voiceId)), pe, [])"
    by (simp add: loadVoiceModel_def)
next
  assume a: "\<not> model_cached pe voiceId \<and> find (\<lambda>x. voice_id x = voiceId) (voices pe) = Some v"
  with lib show "snd (snd (loadVoiceModel B pe voiceId)) =
         [Fetched (path_string (modelPath v)), Fetched (path_string (modelPath v) @ ''.json'')]"
    by (simp add: loadVoiceModel_def Let_def split: sum.splits)
  {
    assume "fetch B (path_string (modelPath v)) = Inr modelResponse
            \<and> fetch B (path_string (modelPath v) @ ''.json'') = Inr configResponse
            \<and> (\<not> resp_ok modelResponse \<or> \<not> resp_ok configResponse)"
    with lib a show "\<exists>e. fst (loadVoiceModel B pe voiceId) = Inl e"
      by (auto simp: loadVoiceModel_def Let_def)
  }
  {
    assume "fetch B (path_string (modelPath v)) = Inr modelResponse \<and> resp_ok modelResponse
            \<and> fetch B (path_string (modelPath v) @ ''.json'') = Inr configResponse
            \<and> resp_ok configResponse
            \<and> resp_arrayBuffer modelResponse = Inr modelData
            \<and> resp_json configResponse = Inr configData"
    with lib a show "loadVoiceModel B pe voiceId =
            (Inr v,
             pe\<lparr>selectedVoice := Some voiceId,
                currentModelData :=
                  Some \<lparr>md_voiceId = voiceId, md_modelData = modelData, md_configData = configData\<rparr>\<rparr>,
             [Fetched (path_string (modelPath v)), Fetched (path_string (modelPath v) @ ''.json'')])"
      by (simp add: loadVoiceModel_def Let_def)
  }
next
  fix e
  assume "fst (loadVoiceModel B pe voiceId) = Inl e"
  then show "fst (snd (loadVoiceModel B pe voiceId)) = pe"
    by (auto simp: loadVoiceModel_def Let_def split: if_splits option.splits sum.splits)
next
  assume "fst (snd (loadVoiceModel B pe voiceId)) \<noteq> pe"
  then show "\<exists>x mr cr. find (\<lambda>x. voice_id x = voiceId) (voices pe) = Some x
            \<and> fetch B (path_string (modelPath x)) = Inr mr \<and> resp_ok mr
            \<and> fetch B (path_string (modelPath x) @ ''.json'') = Inr cr \<and> resp_ok cr"
    by (auto simp: loadVoiceModel_def Let_def split: if_splits option.splits sum.splits)
  qed
qed

lemma find_john: "find (\<lambda>x. voice_id x = ''en_US-john-medium'') discovered = Some john"
  and find_alan: "find (\<lambda>x. voice_id x = ''en_GB-alan-medium'') discovered = Some alan"
  and find_lessac: "find (\<lambda>x. voice_id x = ''en_US-lessac-high'') discovered = Some lessac"
  and find_nobody: "find (\<lambda>x. voice_id x = ''nobody'') discovered = None"
  by (simp_all add: discovered_def lessac_def john_def alan_def demo_voice_def)

lemma demo_paths:
  "path_string (modelPath john) = ''/public/tts-web/onnx/en_US-john-medium.onnx''"
  "path_string (modelPath alan) = ''/public/tts-web/onnx/en_GB-alan-medium.onnx''"
  by (simp_all add: john_def alan_def demo_voice_def path_string_def)

lemma demo_fetches:
  "fetch (demo_browser a) ''/public/tts-web/onnx/en_US-john-medium.onnx'' = Inr (found [79, 78] JNull)"
  "fetch (demo_browser a) ''/public/tts-web/onnx/en_US-john-medium.onnx.json'' =
     Inr (found [] (JObj []))"
  "fetch (demo_browser a) ''/public/tts-web/onnx/en_GB-alan-medium.onnx'' = Inr (found [79, 78] JNull)"
  "fetch (demo_browser a) ''/public/tts-web/onnx/en_GB-alan-medium.onnx.json'' = Inr not_found"
  by (simp_all add: demo_browser_def demo_fetch_def)

lemma demo_engine_fields:
  "piper (demo_engine a) = Some failing_lib" "isInitialized (demo_engine a)"
  "voices (demo_engine a) = discovered"
  "selectedVoice (demo_engine a) = Some ''en_US-lessac-high''"
  "audioContext (demo_engine a) = a"
  "model_cached (demo_engine a) ''en_US-lessac-high''"
  "\<not> model_cached (demo_engine a) ''en_US-john-medium''"
  "\<not> model_cached (demo_engine a) ''en_GB-alan-medium''"
  "\<not> model_cached (demo_engine a) ''nobody''"
  by (simp_all add: demo_engine_def model_cached_def)

text \<open>
  The claim as stated, for every voice, fails for the voice whose model is cached:
  nothing is fetched.
\<close>

theorem loadVoiceModel_cached_counterexample:
  "loadVoiceModel (demo_browser True) (demo_engine True) ''en_US-lessac-high'' =
     (Inr lessac, demo_engine True, [])"
  by (simp add: loadVoiceModel_def demo_engine_fields find_lessac)

theorem loadVoiceModel_behaviour_witness:
  "piper (demo_engine True) \<noteq> None
   \<and> model_cached (demo_engine True) ''en_US-lessac-high''
   \<and> snd (loadVoiceModel (demo_browser True) (demo_engine True) ''en_US-lessac-high'') =
       (demo_engine True, [])
   \<and> \<not> model_cached (demo_engine True) ''nobody''
   \<and> find (\<lambda>x. voice_id x = ''nobody'') (voices (demo_engine True)) = None
   \<and> loadVoiceModel (demo_browser True) (demo_engine True) ''nobody'' =
       (Inl (Error ''Voice not found: nobody''), demo_engine True, [])
   \<and> find (\<lambda>x. voice_id x = ''en_GB-alan-medium'') (voices (demo_engine True)) = Some alan
   \<and> fetch (demo_browser True) (path_string (modelPath alan) @ ''.json'') = Inr not_found
   \<and> \<not> resp_ok not_found
   \<and> (\<exists>e. fst (loadVoiceModel (demo_browser True) (demo_engine True) ''en_GB-alan-medium'') = Inl e)
   \<and> fst (snd (loadVoiceModel (demo_browser True) (demo_engine True) ''en_GB-alan-medium'')) =
       demo_engine True
   \<and> find (\<lambda>x. voice_id x = ''en_US-john-medium'') (voices (demo_engine True)) = Some john
   \<and> loadVoiceModel (demo_browser True) (demo_engine True) ''en_US-john-medium'' =
       (Inr john,
        (demo_engine True)\<lparr>selectedVoice := Some ''en_US-john-medium'',
          currentModelData :=
            Some \<lparr>md_voiceId = ''en_US-john-medium'', md_modelData = [79, 78],
                   md_configData = JObj []\<rparr>\<rparr>,
        [Fetched ''/public/tts-web/onnx/en_US-john-medium.onnx'',
         Fetched ''/public/tts-web/onnx/en_US-john-medium.onnx.json''])"
proof -
  have p: "piper (demo_engine True) \<noteq> None"
    by (simp add: demo_engine_fields)
  have nf: "\<not> resp_ok not_found" and ok: "\<And>b c. resp_ok (found b c)"
    and ab: "\<And>b c. resp_arrayBuffer (found b c) = Inr b" and js: "\<And>b c. resp_json (found b c) = Inr c"
    by (simp_all add: not_found_def found_def)
  note cached = loadVoiceModel_behaviour [OF p, of "''en_US-lessac-high''" "demo_browser True"]
  note nobody = loadVoiceModel_behaviour [OF p, of "''nobody''" "demo_browser True"]
  note al = loadVoiceModel_behaviour [OF p, of "''en_GB-alan-medium''" "demo_browser True" alan
      "found [79, 78] JNull" not_found]
  note jo = loadVoiceModel_behaviour [OF p, of "''en_US-john-medium''" "demo_browser True" john
      "found [79, 78] JNull" "found [] (JObj [])" "[79, 78]" "JObj []"]
  have 1: "snd (loadVoiceModel (demo_browser True) (demo_engine True) ''en_US-lessac-high'') =
       (demo_engine True, [])"
    using cached by (simp add: demo_engine_fields)
  have 2: "loadVoiceModel (demo_browser True) (demo_engine True) ''nobody'' =
       (Inl (Error ''Voice not found: nobody''), demo_engine True, [])"
    using nobody by (simp add: demo_engine_fields find_nobody)
  have 3: "\<exists>e. fst (loadVoiceModel (demo_browser True) (demo_engine True) ''en_GB-alan-medium'') = Inl e"
    using al by (simp add: demo_engine_fields find_alan demo_paths demo_fetches nf)
  then have 4: "fst (snd (loadVoiceModel (demo_browser True) (demo_engine True) ''en_GB-alan-medium'')) =
       demo_engine True"
    using al by blast
  have 5: "loadVoiceModel (demo_browser True) (demo_engine True) ''en_US-john-medium'' =
       (Inr john,
        (demo_engine True)\<lparr>selectedVoice := Some ''en_US-john-medium'',
          currentModelData :=
            Some \<lparr>md_voiceId = ''en_US-john-medium'', md_modelData = [79, 78],
                   md_configData = JObj []\<rparr>\<rparr>,
        [Fetched ''/public/tts-web/onnx/en_US-john-medium.onnx'',
         Fetched ''/public/tts-web/onnx/en_US-john-medium.onnx.json''])"
    using jo by (simp add: demo_engine_fields find_john demo_paths demo_fetches ok ab js)
  from p 1 2 3 4 5 nf show ?thesis
    by (simp add: demo_engine_fields find_nobody find_alan find_john demo_paths demo_fetches)
qed

lemma whitespace_only_is: "list_all is_whitespace [0x20, 0x9, 0xA0]"
  by (simp add: is_whitespace_def)


theorem empty_text_is_rejected_witness:
  "list_all is_whitespace [0x20, 0x9, 0xA0]
   \<and> PiperEngine_synthesizeToSpeech (demo_browser True) (demo_engine True) (Some [0x20, 0x9, 0xA0])
         no_options =
       (Inl (Error ''Text cannot be empty''), demo_engine True, [])
   \<and> AudioEngine_synthesizeToSpeech (demo_browser True) (Some [0x20, 0x9, 0xA0]) no_options =
       (Inl (Error ''Text cannot be empty''), [])
   \<and> VoiceForgeEngine_synthesizeToSpeech (demo_browser True) demo_voiceforge
         (Some [0x20, 0x9, 0xA0]) no_options =
       (Inl (Error ''Text cannot be empty''), demo_voiceforge, [])
   \<and> generateSpeech (demo_browser True) id demo_integration (Some [0x20, 0x9, 0xA0]) no_options =
       (Inl (Error ''Text cannot be empty''), demo_integration, [])"
proof -
  have w: "Some [0x20, 0x9, 0xA0] = None \<or>
      Some [0x20, 0x9, 0xA0] = Some [0x20, 0x9, 0xA0 :: 16 word] \<and> list_all is_whitespace [0x20, 0x9, 0xA0]"
    using whitespace_only_is by simp
  have "isInitialized (demo_engine True)" and "speechSupported (demo_browser True)"
    and "initialized demo_integration"
    by (simp_all add: demo_engine_def demo_browser_def demo_integration_def)
  then show ?thesis
    using empty_text_is_rejected [OF w, of "demo_browser True" "demo_engine True" no_options
        demo_voiceforge id demo_integration] whitespace_only_is
    by simp
qed

text \<open>
  The claim as stated fails where an earlier guard throws: on an engine that is not
  initialized the empty text is answered with \<open>Piper not initialized\<close>.
\<close>

theorem empty_text_counterexample:
  "PiperEngine_synthesizeToSpeech (demo_browser True) ((demo_engine True)\<lparr>isInitialized := False\<rparr>)
     (Some []) no_options =
     (Inl (Error ''Piper not initialized. Call initialize() first.''),
      (demo_engine True)\<lparr>isInitialized := False\<rparr>, [])"
  by (simp add: PiperEngine_synthesizeToSpeech_def not_initialized_def)

lemma AudioEngine_always_rejects: "\<exists>e. fst (AudioEngine_synthesizeToSpeech B tx options) = Inl e"
  by (auto simp: AudioEngine_synthesizeToSpeech_def synthesizeWithFallback_def
      split: prod.splits sum.splits)












lemma try_synthesis_throws:
  assumes "piper pe = Some lib"
    and "\<And>g t opts. lib_generate lib = Some g \<Longrightarrow> \<exists>e. g t opts = Inl e"
    and "\<And>f t w n. lib_synthesize lib = Some f \<Longrightarrow> \<exists>e. f t w n = Inl e"
    and "\<And>f t w. lib_synthesizeToSpeech lib = Some f \<Longrightarrow> \<exists>e. f t w = Inl e"
  shows "\<exists>e. fst (try_synthesis B pe tx v n) = Inl e"
proof (cases "lib_generate lib")
  case (Some g)
  show ?thesis
  proof (cases "case currentModelData pe of None \<Rightarrow> Inr None
      | Some md \<Rightarrow> (case json_stringify (browser_platform B) (md_configData md) of
          Inl e \<Rightarrow> Inl e | Inr s \<Rightarrow> Inr s)")
    case (Inl e)
    with assms(1) Some show ?thesis
      by (simp add: try_synthesis_def)
  next
    case (Inr json)
    obtain e where "g tx \<lparr>opt_voice = v, opt_lengthScale = n,
        opt_model = map_option md_modelData (currentModelData pe),
        opt_config = map_option md_configData (currentModelData pe),
        opt_onnx = map_option md_modelData (currentModelData pe), opt_json = json\<rparr> = Inl e"
      using assms(2) [OF Some] by blast
    with assms(1) Some Inr show ?thesis
      by (simp add: try_synthesis_def Let_def)
  qed
next
  case None
  show ?thesis
  proof (cases "lib_synthesize lib")
    case (Some f)
    with assms(1,3) None show ?thesis
      by (simp add: try_synthesis_def)
  next
    case no_synthesize: None
    show ?thesis
    proof (cases "lib_synthesizeToSpeech lib")
      case (Some f)
      with assms(1,4) None no_synthesize show ?thesis
        by (simp add: try_synthesis_def)
    next
      case no_method: None
      with assms(1) None no_synthesize show ?thesis
        by (simp add: try_synthesis_def)
    qed
  qed
qed





end
